theory Spec2Isabelle
  imports Main "HOL-Library.Word"
begin

section \<open>Initial sync (package initialsync): data model\<close>

text \<open>
  The round-robin initial sync of the beacon node, \<^verbatim>\<open>roundRobinSync\<close>, and its admission
  gate \<^verbatim>\<open>processBlock\<close>. Slots and epochs are \<^verbatim>\<open>uint64\<close>, hence \<^typ>\<open>64 word\<close>: addition
  and subtraction wrap, comparison is unsigned.
\<close>

type_synonym byte = "8 word"
type_synonym uint64 = "64 word"
type_synonym root = "byte list"
type_synonym peer_ID = string

text \<open>
  \<^verbatim>\<open>eth.SignedBeaconBlock\<close>: the gate reads \<^verbatim>\<open>blk.Block.Slot\<close> and
  \<^verbatim>\<open>blk.Block.ParentRoot\<close>; every other field (proposer, state root, body,
  signature) is carried along in \<open>Rest\<close>. The \<^verbatim>\<open>Block\<close> pointer is populated, as it is
  in every block the decoder of the wire format produces.
\<close>

record SignedBeaconBlock =
  Slot :: uint64
  ParentRoot :: "byte list"
  Rest :: "byte list"

text \<open>\<^verbatim>\<open>p2ppb.BeaconBlocksByRangeRequest\<close>.\<close>

record BeaconBlocksByRangeRequest =
  StartSlot :: uint64
  Count :: uint64
  Step :: uint64

text \<open>\<^verbatim>\<open>pb.Status\<close>, the chain state a peer advertises; only the finalized epoch is read.\<close>

record Status =
  FinalizedEpoch :: uint64
  HeadSlotOfPeer :: uint64

text \<open>
  Go \<^verbatim>\<open>error\<close> values. The two errors \<^verbatim>\<open>processBlock\<close> builds with \<^verbatim>\<open>fmt.Errorf\<close> keep
  their argument; \<open>ErrorsNew\<close> is \<^verbatim>\<open>errors.New(msg)\<close>; \<open>Collaborator\<close> is an error value
  handed back by a collaborator (storage, block receiver, fetcher, queue), identified by
  its message. The last three are the failures of the transport and of the payload
  encoder, under the names the spec gives them.
\<close>

datatype error =
    SlotAlreadyProcessed uint64
  | NoParentInDb "byte list"
  | ErrorsNew string
  | Collaborator string
  | IOError
  | EncodingTooLarge
  | MalformedPayload

text \<open>The lines the orchestrator writes to its log, one constructor per log statement.\<close>

datatype logline =
    ProcessingBlock uint64 root
  | BlockIsNotProcessed error
  | SyncedToFinalizedEpoch
  | ErrorStoppingQueue error
  | CouldNotDetermineBestFinalized error
  | WaitingForSuitablePeer
  | SendingBatchBlockRequest BeaconBlocksByRangeRequest peer_ID
  | FailedToReceiveBlocks error
  | FailedToProcessBlock error

text \<open>
  The collaborators of the service, as an interface. \<open>'c\<close> is the state of the local
  node (\<^verbatim>\<open>s.db\<close> and \<^verbatim>\<open>s.chain\<close>: stored blocks, the in-flight cache, the head), changed
  only by the block receivers and by \<^verbatim>\<open>ClearCachedStates\<close>. \<open>'n\<close> is the state of the
  outside (\<^verbatim>\<open>s.p2p\<close>, the blocks queue, the fetcher and the wall clock), changed by every
  network operation and by sleeping. The genesis time is fixed for a run, so
  \<open>SlotsSince\<close> stands for \<^verbatim>\<open>helpers.SlotsSince(genesis)\<close> read in the given state.
  A Go function returning \<^verbatim>\<open>(value, error)\<close> returns a pair or a sum here; a \<^verbatim>\<open>nil\<close>
  error is \<open>None\<close>.
\<close>

record ('c, 'n) Collaborators =
  HeadSlot :: "'c \<Rightarrow> uint64"
  HasBlock :: "'c \<Rightarrow> root \<Rightarrow> bool"
  HasInitSyncBlock :: "'c \<Rightarrow> root \<Rightarrow> bool"
  ClearCachedStates :: "'c \<Rightarrow> 'c"
  ReceiveBlockInitialSync :: "'c \<Rightarrow> SignedBeaconBlock \<Rightarrow> root \<Rightarrow> error option \<times> 'c"
  ReceiveBlockNoPubsub :: "'c \<Rightarrow> SignedBeaconBlock \<Rightarrow> root \<Rightarrow> error option \<times> 'c"
  BlockRoot :: "SignedBeaconBlock \<Rightarrow> error + root"
  ToBytes32 :: "byte list \<Rightarrow> root"
  SlotsSince :: "'n \<Rightarrow> uint64"
  helpers_StartSlot :: "uint64 \<Rightarrow> uint64"
  Connected :: "'n \<Rightarrow> peer_ID list"
  ChainState :: "'n \<Rightarrow> peer_ID \<Rightarrow> Status option \<times> error option"
  BestFinalized :: "'n \<Rightarrow> int \<Rightarrow> uint64 \<Rightarrow> peer_ID list \<times> error option"
  queue_start :: "'n \<Rightarrow> uint64 \<Rightarrow> error option \<times> 'n"
  fetchedBlocks :: "'c \<Rightarrow> 'n \<Rightarrow> (SignedBeaconBlock \<times> 'n) option"
  queue_stop :: "'n \<Rightarrow> error option \<times> 'n"
  blocksPerSecond :: "'n \<Rightarrow> uint64"
  requestBlocks :: "'n \<Rightarrow> BeaconBlocksByRangeRequest \<Rightarrow> peer_ID
                      \<Rightarrow> (error + SignedBeaconBlock list) \<times> 'n"
  sleep_refreshTime :: "'n \<Rightarrow> 'n"

text \<open>
  The \<^verbatim>\<open>Service\<close>: its own fields \<^verbatim>\<open>lastProcessedSlot\<close> and \<^verbatim>\<open>counter\<close> (the number of
  \<^verbatim>\<open>Incr(1)\<close> calls since the counter was created), the log, the package-level
  \<^verbatim>\<open>state.SkipSlotCache\<close> switch, and the two collaborator states.
\<close>

record ('c, 'n) Service =
  lastProcessedSlot :: uint64
  counter :: nat
  logged :: "logline list"
  skipSlotCacheEnabled :: bool
  chain_db :: 'c
  p2p_net :: 'n

type_synonym 'c blockReceiverFn = "'c \<Rightarrow> SignedBeaconBlock \<Rightarrow> root \<Rightarrow> error option \<times> 'c"

definition log_line :: "logline \<Rightarrow> ('c, 'n) Service \<Rightarrow> ('c, 'n) Service" where
  "log_line l s = s\<lparr>logged := logged s @ [l]\<rparr>"

section \<open>The admission gate\<close>

text \<open>
  \<^verbatim>\<open>logSyncStatus\<close> increments the rate counter and writes one progress line. The rate and
  the estimated time remaining are floating-point values that only appear in the text of
  that line; the line is recorded with the block's slot and root.
\<close>

definition logSyncStatus ::
  "('c, 'n) Service \<Rightarrow> SignedBeaconBlock \<Rightarrow> root \<Rightarrow> ('c, 'n) Service" where
  "logSyncStatus s blk blkRoot =
     log_line (ProcessingBlock (Slot blk) blkRoot) (s\<lparr>counter := counter s + 1\<rparr>)"

text \<open>
  \<^verbatim>\<open>processBlock\<close>: the checks in the order of the source. The result is the returned
  error (\<open>None\<close> for \<^verbatim>\<open>nil\<close>) and the service afterwards.
\<close>

definition processBlock ::
  "('c, 'n) Collaborators \<Rightarrow> 'c blockReceiverFn \<Rightarrow> ('c, 'n) Service \<Rightarrow> SignedBeaconBlock
     \<Rightarrow> error option \<times> ('c, 'n) Service" where
  "processBlock C blockReceiver s blk =
     (if Slot blk \<le> lastProcessedSlot s then (Some (SlotAlreadyProcessed (Slot blk)), s)
      else
        (case BlockRoot C blk of
           Inl err \<Rightarrow> (Some err, s)
         | Inr blkRoot \<Rightarrow>
             (let s1 = logSyncStatus s blk blkRoot;
                  parentRoot = ToBytes32 C (ParentRoot blk)
              in if \<not> HasBlock C (chain_db s1) parentRoot
                    \<and> \<not> HasInitSyncBlock C (chain_db s1) parentRoot
                 then (Some (NoParentInDb (ParentRoot blk)), s1)
                 else
                   (case blockReceiver (chain_db s1) blk blkRoot of
                      (Some err, c') \<Rightarrow> (Some err, s1\<lparr>chain_db := c'\<rparr>)
                    | (None, c') \<Rightarrow>
                        (None, s1\<lparr>chain_db := c', lastProcessedSlot := Slot blk\<rparr>)))))"

section \<open>The orchestrator\<close>

text \<open>
  \<^verbatim>\<open>highestFinalizedEpoch\<close>: the loop over the connected peers, with \<open>highest\<close> as the
  accumulator. A peer counts when \<^verbatim>\<open>ChainState\<close> returns no error and a non-nil state.
\<close>

definition highestFinalizedEpoch :: "('c, 'n) Collaborators \<Rightarrow> 'n \<Rightarrow> uint64" where
  "highestFinalizedEpoch C n =
     foldl (\<lambda>highest pid.
              (case ChainState C n pid of
                 (Some peerChainState, None) \<Rightarrow>
                   if FinalizedEpoch peerChainState > highest
                   then FinalizedEpoch peerChainState else highest
               | _ \<Rightarrow> highest))
           0 (Connected C n)"

text \<open>The local \<^verbatim>\<open>highestFinalizedSlot\<close>, the target handed to the blocks queue.\<close>

definition highestFinalizedSlot :: "('c, 'n) Collaborators \<Rightarrow> 'n \<Rightarrow> uint64" where
  "highestFinalizedSlot C n = helpers_StartSlot C (highestFinalizedEpoch C n + 1)"

text \<open>
  Modelled from the spec: \<^verbatim>\<open>mathutil.Min\<close> (package shared/mathutil, not among the
  sources) is the smaller of its two \<^verbatim>\<open>uint64\<close> arguments; the spec has the request's
  count bounded by the fetcher's throughput allowance.
\<close>

definition mathutil_Min :: "uint64 \<Rightarrow> uint64 \<Rightarrow> uint64" where
  "mathutil_Min a b = (if a < b then a else b)"

text \<open>The request of one iteration of step 2, built from the head and the clock.\<close>

definition batchRequest :: "('c, 'n) Collaborators \<Rightarrow> ('c, 'n) Service \<Rightarrow> BeaconBlocksByRangeRequest" where
  "batchRequest C s =
     (let count = mathutil_Min (SlotsSince C (p2p_net s) - HeadSlot C (chain_db s) + 1)
                    (blocksPerSecond C (p2p_net s))
      in \<lparr>StartSlot = HeadSlot C (chain_db s) + 1, Count = count, Step = 1\<rparr>)"

text \<open>
  Step 1: \<^verbatim>\<open>for blk := range queue.fetchedBlocks\<close>. Receiving from the channel is
  \<open>fetchedBlocks\<close>: the next block, or \<open>None\<close> once the queue has closed the channel. The
  loop runs for as long as the queue delivers, so it is a partial function: \<open>None\<close> is a
  run that never leaves the loop.
\<close>

partial_function (option) syncToFinalizedEpoch ::
  "('c, 'n) Collaborators \<Rightarrow> ('c, 'n) Service \<Rightarrow> ('c, 'n) Service option" where
  "syncToFinalizedEpoch C s =
     (case fetchedBlocks C (chain_db s) (p2p_net s) of
        None \<Rightarrow> Some s
      | Some (blk, n') \<Rightarrow>
          (case processBlock C (ReceiveBlockInitialSync C) (s\<lparr>p2p_net := n'\<rparr>) blk of
             (Some err, s') \<Rightarrow> syncToFinalizedEpoch C (log_line (BlockIsNotProcessed err) s')
           | (None, s') \<Rightarrow> syncToFinalizedEpoch C s'))"

text \<open>
  \<^verbatim>\<open>BestFinalized(1, s.highestFinalizedEpoch())\<close> with its error logged; the root and the
  epoch it also returns are discarded by the caller.
\<close>

definition bestFinalizedPeers ::
  "('c, 'n) Collaborators \<Rightarrow> ('c, 'n) Service \<Rightarrow> peer_ID list \<times> ('c, 'n) Service" where
  "bestFinalizedPeers C s =
     (case BestFinalized C (p2p_net s) 1 (highestFinalizedEpoch C (p2p_net s)) of
        (pids, Some err) \<Rightarrow> (pids, log_line (CouldNotDetermineBestFinalized err) s)
      | (pids, None) \<Rightarrow> (pids, s))"

text \<open>
  \<^verbatim>\<open>for len(pids) == 0\<close>: sleep for the refresh time and ask again. The result is
  \<^verbatim>\<open>pids[0]\<close>; \<open>None\<close> is a run in which no suitable peer ever appears.
\<close>

partial_function (option) waitForSuitablePeer ::
  "('c, 'n) Collaborators \<Rightarrow> ('c, 'n) Service \<Rightarrow> peer_ID list
     \<Rightarrow> (peer_ID \<times> ('c, 'n) Service) option" where
  "waitForSuitablePeer C s pids =
     (case pids of
        [] \<Rightarrow>
          (case bestFinalizedPeers C
                  ((log_line WaitingForSuitablePeer s)
                     \<lparr>p2p_net := sleep_refreshTime C (p2p_net s)\<rparr>) of
             (pids', s') \<Rightarrow> waitForSuitablePeer C s' pids')
      | best # _ \<Rightarrow> Some (best, s))"

text \<open>The inner loop of step 2: the blocks of one response, up to the first failure.\<close>

fun processBatch ::
  "('c, 'n) Collaborators \<Rightarrow> ('c, 'n) Service \<Rightarrow> SignedBeaconBlock list
     \<Rightarrow> error option \<times> ('c, 'n) Service" where
  "processBatch C s [] = (None, s)"
| "processBatch C s (blk # rest) =
     (case processBlock C (ReceiveBlockNoPubsub C) s blk of
        (Some err, s') \<Rightarrow> (Some err, s')
      | (None, s') \<Rightarrow> processBatch C s' rest)"

lemma processBlock_accept_lps:
  "processBlock C r s blk = (None, s') \<Longrightarrow>
     lastProcessedSlot s < Slot blk \<and> lastProcessedSlot s' = Slot blk"
  by (auto simp: processBlock_def Let_def logSyncStatus_def log_line_def
           split: if_splits sum.splits prod.splits option.splits)

lemma processBatch_lps_le:
  "processBatch C s resp = (None, s') \<Longrightarrow> lastProcessedSlot s \<le> lastProcessedSlot s'"
proof (induction resp arbitrary: s)
  case Nil
  then show ?case by simp
next
  case (Cons blk rest)
  obtain r s1 where p: "processBlock C (ReceiveBlockNoPubsub C) s blk = (r, s1)"
    by (cases "processBlock C (ReceiveBlockNoPubsub C) s blk")
  with Cons.prems have r: "r = None" and rest: "processBatch C s1 rest = (None, s')"
    by (auto split: option.splits)
  from p r have "lastProcessedSlot s < lastProcessedSlot s1"
    using processBlock_accept_lps[of C "ReceiveBlockNoPubsub C" s blk s1] by simp
  moreover have "lastProcessedSlot s1 \<le> lastProcessedSlot s'"
    by (rule Cons.IH[OF rest])
  ultimately show ?case by simp
qed

lemma processBatch_lps_less:
  assumes "processBatch C s resp = (None, s')" and "resp \<noteq> []"
  shows "lastProcessedSlot s < lastProcessedSlot s'"
proof -
  from assms(2) obtain blk rest where resp: "resp = blk # rest" by (cases resp) auto
  obtain r s1 where p: "processBlock C (ReceiveBlockNoPubsub C) s blk = (r, s1)"
    by (cases "processBlock C (ReceiveBlockNoPubsub C) s blk")
  with assms(1) resp have r: "r = None" and rest: "processBatch C s1 rest = (None, s')"
    by (auto split: option.splits)
  from p r have "lastProcessedSlot s < lastProcessedSlot s1"
    using processBlock_accept_lps[of C "ReceiveBlockNoPubsub C" s blk s1] by simp
  moreover have "lastProcessedSlot s1 \<le> lastProcessedSlot s'"
    by (rule processBatch_lps_le[OF rest])
  ultimately show ?thesis by simp
qed

lemma lastProcessedSlot_measure:
  fixes a b :: uint64
  assumes "a < b"
  shows "(2::nat) ^ 64 - unat b < 2 ^ 64 - unat a"
proof -
  from assms have "unat a < unat b" by (simp add: word_less_nat_alt)
  moreover have "unat b < 2 ^ 64"
    using unsigned_less[of b, where 'a = nat] by simp
  ultimately show ?thesis by simp
qed

text \<open>
  Step 2: \<^verbatim>\<open>for head := helpers.SlotsSince(genesis); s.chain.HeadSlot() < head; { ... }\<close>.
  \<open>head\<close> is read once, before the loop. Every way out of the loop returns \<^verbatim>\<open>nil\<close>.
\<close>

function syncToHead ::
  "('c, 'n) Collaborators \<Rightarrow> peer_ID \<Rightarrow> uint64 \<Rightarrow> ('c, 'n) Service
     \<Rightarrow> error option \<times> ('c, 'n) Service" where
  "syncToHead C best head s =
     (if HeadSlot C (chain_db s) < head then
        (case requestBlocks C (p2p_net s) (batchRequest C s) best of
           (Inl err, n') \<Rightarrow>
             (None, log_line (FailedToReceiveBlocks err)
                      ((log_line (SendingBatchBlockRequest (batchRequest C s) best) s)
                         \<lparr>p2p_net := n'\<rparr>))
         | (Inr resp, n') \<Rightarrow>
             (case processBatch C
                     ((log_line (SendingBatchBlockRequest (batchRequest C s) best) s)
                        \<lparr>p2p_net := n'\<rparr>) resp of
                (Some err, s') \<Rightarrow> (None, log_line (FailedToProcessBlock err) s')
              | (None, s') \<Rightarrow> if resp = [] then (None, s') else syncToHead C best head s'))
      else (None, s))"
  by pat_completeness auto
termination
proof (relation "measure (\<lambda>(C, best, head, s). 2 ^ 64 - unat (lastProcessedSlot s))", goal_cases)
  case 1
  show ?case by simp
next
  case (2 C best head s x y b xa ya)
  from 2 have "processBatch C
       ((log_line (SendingBatchBlockRequest (batchRequest C s) best) s)\<lparr>p2p_net := y\<rparr>) b
         = (None, ya)"
    by simp
  from processBatch_lps_less[OF this \<open>b \<noteq> []\<close>]
  have "lastProcessedSlot s < lastProcessedSlot ya" by (simp add: log_line_def)
  from lastProcessedSlot_measure[OF this] show ?case by simp
qed

declare syncToHead.simps [simp del]

text \<open>
  What the deferred calls do on every return: \<^verbatim>\<open>state.SkipSlotCache.Enable()\<close> and
  \<^verbatim>\<open>s.chain.ClearCachedStates()\<close>.
\<close>

definition deferred :: "('c, 'n) Collaborators \<Rightarrow> ('c, 'n) Service \<Rightarrow> ('c, 'n) Service" where
  "deferred C s = s\<lparr>skipSlotCacheEnabled := True, chain_db := ClearCachedStates C (chain_db s)\<rparr>"

text \<open>\<^verbatim>\<open>queue.stop()\<close>, its error logged and dropped.\<close>

definition stopQueue :: "('c, 'n) Collaborators \<Rightarrow> ('c, 'n) Service \<Rightarrow> ('c, 'n) Service" where
  "stopQueue C s =
     (case queue_stop C (p2p_net s) of
        (Some err, n') \<Rightarrow> log_line (ErrorStoppingQueue err) (s\<lparr>p2p_net := n'\<rparr>)
      | (None, n') \<Rightarrow> s\<lparr>p2p_net := n'\<rparr>)"

text \<open>
  \<^verbatim>\<open>roundRobinSync\<close>. The result is \<open>None\<close> when the run never returns (the queue
  never closes its channel, or no suitable peer ever appears), and otherwise the returned
  error with the service as the run leaves it.
\<close>

definition roundRobinSync ::
  "('c, 'n) Collaborators \<Rightarrow> ('c, 'n) Service \<Rightarrow> (error option \<times> ('c, 'n) Service) option" where
  "roundRobinSync C s =
     (let s1 = s\<lparr>skipSlotCacheEnabled := False, counter := 0,
                   lastProcessedSlot := HeadSlot C (chain_db s)\<rparr>
      in case queue_start C (p2p_net s1) (highestFinalizedSlot C (p2p_net s1)) of
           (Some err, n1) \<Rightarrow> Some (Some err, deferred C (s1\<lparr>p2p_net := n1\<rparr>))
         | (None, n1) \<Rightarrow>
             (case syncToFinalizedEpoch C (s1\<lparr>p2p_net := n1\<rparr>) of
                None \<Rightarrow> None
              | Some s2 \<Rightarrow>
                  (let s3 = stopQueue C (log_line SyncedToFinalizedEpoch s2)
                   in if HeadSlot C (chain_db s3) = SlotsSince C (p2p_net s3)
                      then Some (None, deferred C s3)
                      else
                        (case bestFinalizedPeers C s3 of
                           (pids, s4) \<Rightarrow>
                             (case waitForSuitablePeer C s4 pids of
                                None \<Rightarrow> None
                              | Some (best, s5) \<Rightarrow>
                                  (case syncToHead C best (SlotsSince C (p2p_net s5)) s5 of
                                     (r, s6) \<Rightarrow> Some (r, deferred C s6)))))))"

section \<open>An example node\<close>

text \<open>
  A small concrete node and network for the concrete runs below: the node keeps its
  head slot and the roots of the blocks it stores; the network has a clock, the blocks the
  queue still has to deliver, the batches the peer will serve, and the connected peers with
  their advertised states. A block's root is its \<open>Rest\<close> field, and receiving a block
  stores its root and moves the head to its slot.
\<close>

record example_node =
  head_slot :: uint64
  stored :: "root list"

record example_net =
  now :: uint64
  channel :: "SignedBeaconBlock list"
  served :: "SignedBeaconBlock list list"
  peers :: "(peer_ID \<times> Status) list"

definition example_receive :: "example_node blockReceiverFn" where
  "example_receive c blk r = (None, c\<lparr>head_slot := Slot blk, stored := r # stored c\<rparr>)"

definition exampleC :: "(example_node, example_net) Collaborators" where
  "exampleC =
     \<lparr>HeadSlot = head_slot,
      HasBlock = (\<lambda>c r. r \<in> set (stored c)),
      HasInitSyncBlock = (\<lambda>c r. False),
      ClearCachedStates = (\<lambda>c. c),
      ReceiveBlockInitialSync = example_receive,
      ReceiveBlockNoPubsub = example_receive,
      BlockRoot = (\<lambda>blk. Inr (Rest blk)),
      ToBytes32 = (\<lambda>b. b),
      SlotsSince = now,
      helpers_StartSlot = (\<lambda>epoch. epoch * 32),
      Connected = (\<lambda>n. map fst (peers n)),
      ChainState = (\<lambda>n pid. (map_of (peers n) pid, None)),
      BestFinalized = (\<lambda>n maxPeers epoch. (take (nat maxPeers) (map fst (peers n)), None)),
      queue_start = (\<lambda>n target. (None, n)),
      fetchedBlocks = (\<lambda>c n. case channel n of [] \<Rightarrow> None
                                 | blk # rest \<Rightarrow> Some (blk, n\<lparr>channel := rest\<rparr>)),
      queue_stop = (\<lambda>n. (None, n)),
      blocksPerSecond = (\<lambda>n. 64),
      requestBlocks = (\<lambda>n req pid. case served n of [] \<Rightarrow> (Inr [], n)
                                       | resp # rest \<Rightarrow> (Inr resp, n\<lparr>served := rest\<rparr>)),
      sleep_refreshTime = (\<lambda>n. n)\<rparr>"

definition example_block :: "uint64 \<Rightarrow> byte list \<Rightarrow> byte list \<Rightarrow> SignedBeaconBlock" where
  "example_block slot parent r = \<lparr>Slot = slot, ParentRoot = parent, Rest = r\<rparr>"

definition example_service ::
  "uint64 \<Rightarrow> example_node \<Rightarrow> example_net \<Rightarrow> (example_node, example_net) Service" where
  "example_service lps c n =
     \<lparr>lastProcessedSlot = lps, counter = 0, logged = [], skipSlotCacheEnabled = True,
      chain_db = c, p2p_net = n\<rparr>"

text \<open>
  A sequence of calls of the gate. Each call comes with what the rest of the service did
  since the previous call (\<open>between\<close>: log lines, network traffic, anything but an
  assignment to \<open>lastProcessedSlot\<close>, which only the gate makes during a run) and
  with the receiver it is called with. The result lists the blocks the gate accepted, in
  the order of the calls.
\<close>

fun acceptedBlocks ::
  "('c, 'n) Collaborators \<Rightarrow> ('c, 'n) Service
     \<Rightarrow> ((('c, 'n) Service \<Rightarrow> ('c, 'n) Service) \<times> 'c blockReceiverFn \<times> SignedBeaconBlock) list
     \<Rightarrow> SignedBeaconBlock list" where
  "acceptedBlocks C s [] = []"
| "acceptedBlocks C s ((between, recv, blk) # calls) =
     (case processBlock C recv ((between s)\<lparr>lastProcessedSlot := lastProcessedSlot s\<rparr>) blk of
        (None, s') \<Rightarrow> blk # acceptedBlocks C s' calls
      | (Some err, s') \<Rightarrow> acceptedBlocks C s' calls)"

text \<open>
  A service with watermark 3 whose node stores the root \<open>[1]\<close>, and four calls of the
  gate: slot 5, slot 5 again after a log line, slot 4, slot 9.
\<close>

definition gate_calls ::
  "(((example_node, example_net) Service \<Rightarrow> (example_node, example_net) Service)
      \<times> example_node blockReceiverFn \<times> SignedBeaconBlock) list" where
  "gate_calls =
     [(\<lambda>s. s, example_receive, example_block 5 [1] [5]),
      (log_line SyncedToFinalizedEpoch, example_receive, example_block 5 [1] [6]),
      (\<lambda>s. s\<lparr>lastProcessedSlot := 0\<rparr>, example_receive, example_block 4 [5] [7]),
      (\<lambda>s. s, example_receive, example_block 9 [5] [9])]"

definition gate_service :: "(example_node, example_net) Service" where
  "gate_service =
     example_service 3 \<lparr>head_slot = 3, stored = [[1]]\<rparr>
       \<lparr>now = 10, channel = [], served = [], peers = []\<rparr>"

text \<open>
  The scenario of a block at slot 50 whose parent root \<open>[7]\<close> is unknown to a node with
  watermark 49 that stores the root \<open>[49]\<close>.
\<close>

definition orphan_block :: SignedBeaconBlock where
  "orphan_block = example_block 50 [7] [50]"

definition orphan_service :: "(example_node, example_net) Service" where
  "orphan_service =
     example_service 49 \<lparr>head_slot = 49, stored = [[49]]\<rparr>
       \<lparr>now = 60, channel = [], served = [], peers = []\<rparr>"

lemmas example_simps = exampleC_def example_block_def example_receive_def example_service_def
  processBlock_def logSyncStatus_def log_line_def

text \<open>
  The finalized epochs of the connected peers whose chain state is retrievable (no error,
  and a state), in the order of the peers.
\<close>

definition retrievableEpochs :: "('c, 'n) Collaborators \<Rightarrow> 'n \<Rightarrow> uint64 list" where
  "retrievableEpochs C n =
     concat (map (\<lambda>pid. case ChainState C n pid of
                            (Some peerChainState, None) \<Rightarrow> [FinalizedEpoch peerChainState]
                          | _ \<Rightarrow> [])
                 (Connected C n))"

text \<open>Three connected peers: one at epoch 4, one whose lookup fails, one at epoch 9.\<close>

definition three_peers :: example_net where
  "three_peers =
     \<lparr>now = 400, channel = [], served = [],
      peers = [(''p1'', \<lparr>FinalizedEpoch = 4, HeadSlotOfPeer = 140\<rparr>),
               (''p3'', \<lparr>FinalizedEpoch = 9, HeadSlotOfPeer = 300\<rparr>)]\<rparr>"

definition three_peersC :: "(example_node, example_net) Collaborators" where
  "three_peersC =
     exampleC\<lparr>Connected := (\<lambda>n. [''p1'', ''p2'', ''p3'']),
              ChainState := (\<lambda>n pid. if pid = ''p2'' then (None, Some (Collaborator ''peer unknown''))
                                       else (map_of (peers n) pid, None))\<rparr>"

text \<open>
  A node at head 2 whose clock reads slot 10, with a peer that has nothing to serve.
\<close>

definition behind_service :: "(example_node, example_net) Service" where
  "behind_service =
     example_service 2 \<lparr>head_slot = 2, stored = [[2]]\<rparr>
       \<lparr>now = 10, channel = [], served = [],
        peers = [(''p1'', \<lparr>FinalizedEpoch = 0, HeadSlotOfPeer = 2\<rparr>)]\<rparr>"

text \<open>
  Three runs of a node at head 0 whose clock reads slot 10 and whose queue delivers
  nothing. In the first the peer serves the blocks of slots 1 and 2, then nothing. In the
  second the peer's first batch holds a block with an unknown parent, followed by a block
  the gate would accept. In the third every request to the peer fails.
\<close>

definition run_net :: "SignedBeaconBlock list list \<Rightarrow> example_net" where
  "run_net batches =
     \<lparr>now = 10, channel = [], served = batches,
      peers = [(''p1'', \<lparr>FinalizedEpoch = 0, HeadSlotOfPeer = 2\<rparr>)]\<rparr>"

definition run_service :: "SignedBeaconBlock list list \<Rightarrow> (example_node, example_net) Service" where
  "run_service batches =
     example_service 0 \<lparr>head_slot = 0, stored = [[0]]\<rparr> (run_net batches)"

definition good_batches :: "SignedBeaconBlock list list" where
  "good_batches = [[example_block 1 [0] [1], example_block 2 [1] [2]]]"

definition bad_batches :: "SignedBeaconBlock list list" where
  "bad_batches = [[example_block 1 [9] [1], example_block 2 [0] [2]], [example_block 3 [0] [3]]]"

definition failingC :: "(example_node, example_net) Collaborators" where
  "failingC = exampleC\<lparr>requestBlocks := (\<lambda>n req pid. (Inl (Collaborator ''stream reset''), n))\<rparr>"

text \<open>
  A node at head 0 whose queue delivers a block with an unknown parent and then a block
  the gate accepts.
\<close>

definition phase1_service :: "(example_node, example_net) Service" where
  "phase1_service =
     example_service 0 \<lparr>head_slot = 0, stored = [[0]]\<rparr>
       \<lparr>now = 2, channel = [example_block 1 [9] [1], example_block 2 [0] [2]], served = [],
        peers = [(''p1'', \<lparr>FinalizedEpoch = 0, HeadSlotOfPeer = 2\<rparr>)]\<rparr>"

text \<open>
  A clock that steps back. In \<open>rewound_service\<close> the head is at slot 5 and the clock
  reads slot 3. With \<open>rewindC\<close> the clock reads slot 1 once the peer has answered a
  request with blocks, and \<open>rewind_batches\<close> is one batch with the blocks of slots 1
  to 3.
\<close>

definition rewound_service :: "(example_node, example_net) Service" where
  "rewound_service =
     example_service 5 \<lparr>head_slot = 5, stored = [[5]]\<rparr>
       \<lparr>now = 3, channel = [], served = [],
        peers = [(''p1'', \<lparr>FinalizedEpoch = 0, HeadSlotOfPeer = 5\<rparr>)]\<rparr>"

definition rewindC :: "(example_node, example_net) Collaborators" where
  "rewindC =
     exampleC\<lparr>requestBlocks := (\<lambda>n req pid.
        case served n of
          [] \<Rightarrow> (Inr [], n)
        | resp # rest \<Rightarrow> (Inr resp, n\<lparr>served := rest, now := 1\<rparr>))\<rparr>"

definition rewind_batches :: "SignedBeaconBlock list list" where
  "rewind_batches =
     [[example_block 1 [0] [1], example_block 2 [1] [2], example_block 3 [2] [3]]]"

lemmas run_simps = run_service_def run_net_def good_batches_def bad_batches_def failingC_def
  roundRobinSync_def highestFinalizedSlot_def highestFinalizedEpoch_def stopQueue_def
  bestFinalizedPeers_def deferred_def batchRequest_def mathutil_Min_def
  syncToFinalizedEpoch.simps waitForSuitablePeer.simps syncToHead.simps
  word_le_nat_alt word_less_nat_alt

section \<open>The chunk codec (package sync)\<close>

text \<open>
  One end of a \<^verbatim>\<open>libp2pcore.Stream\<close>: the bytes that have arrived and are not read yet,
  the bytes written so far, the two deadlines (a duration from the moment they were set, in
  seconds; \<open>None\<close> when none was set), and the transport's fate: \<open>faultAfter = Some k\<close>
  when the transport takes \<open>k\<close> more writes and fails every write after them, \<open>None\<close>
  when it never fails.
\<close>

record Stream =
  unread :: "byte list"
  written :: "byte list"
  readDeadline :: "nat option"
  writeDeadline :: "nat option"
  faultAfter :: "nat option"

text \<open>\<^verbatim>\<open>stream.Write(p)\<close>: all of \<open>p\<close> is written, or the transport fails.\<close>

definition stream_Write :: "Stream \<Rightarrow> byte list \<Rightarrow> error option \<times> Stream" where
  "stream_Write stream p =
     (case faultAfter stream of
        None \<Rightarrow> (None, stream\<lparr>written := written stream @ p\<rparr>)
      | Some 0 \<Rightarrow> (Some IOError, stream)
      | Some (Suc k) \<Rightarrow> (None, stream\<lparr>written := written stream @ p, faultAfter := Some k\<rparr>))"

text \<open>
  \<^verbatim>\<open>encoder.NetworkEncoding\<close>, the interface the codec is handed, for messages of type
  \<open>'m\<close>: the two methods the codec calls, and the decoding of the error string that
  follows a failure status, which \<^verbatim>\<open>ReadStatusCode\<close> asks of the same encoding. A decoder
  returns the decoded value where the Go method fills the destination it is given.
\<close>

record 'm NetworkEncoding =
  EncodeWithMaxLength :: "Stream \<Rightarrow> 'm \<Rightarrow> nat \<Rightarrow> error option \<times> Stream"
  DecodeWithMaxLength :: "Stream \<Rightarrow> nat \<Rightarrow> (error + 'm) \<times> Stream"
  DecodeErrorString :: "Stream \<Rightarrow> (error + string) \<times> Stream"

text \<open>
  Modelled from the spec: the constant \<^verbatim>\<open>responseCodeSuccess\<close> is not among the sources;
  in the wire framing of the spec (section 6) the result byte \<^verbatim>\<open>0x00\<close> denotes success.
\<close>

definition responseCodeSuccess :: byte where
  "responseCodeSuccess = 0"

text \<open>
  Modelled from the spec: \<^verbatim>\<open>SetStreamWriteDeadline\<close> is not among the sources; the write
  path applies a bounded write deadline to the stream (section 4.1).
\<close>

definition SetStreamWriteDeadline :: "Stream \<Rightarrow> nat \<Rightarrow> Stream" where
  "SetStreamWriteDeadline stream duration = stream\<lparr>writeDeadline := Some duration\<rparr>"

text \<open>
  Modelled from the spec: \<^verbatim>\<open>SetStreamReadDeadline\<close> is not among the sources; the read
  path applies a bounded read deadline to the stream (section 4.1).
\<close>

definition SetStreamReadDeadline :: "Stream \<Rightarrow> nat \<Rightarrow> Stream" where
  "SetStreamReadDeadline stream duration = stream\<lparr>readDeadline := Some duration\<rparr>"

text \<open>
  Modelled from the spec: \<^verbatim>\<open>ReadStatusCode\<close> is not among the sources. Section 4.1: the read
  path reads the status byte; if it is nonzero, it reads the accompanying error string. The
  result is the code, the error string and the error of the Go function, with the stream
  as the reads leave it.
\<close>

definition ReadStatusCode ::
  "Stream \<Rightarrow> 'm NetworkEncoding \<Rightarrow> (byte \<times> string \<times> error option) \<times> Stream" where
  "ReadStatusCode stream encoding =
     (case unread stream of
        [] \<Rightarrow> ((0, [], Some IOError), stream)
      | b # rest \<Rightarrow>
          if b = responseCodeSuccess then ((0, [], None), stream\<lparr>unread := rest\<rparr>)
          else
            (case DecodeErrorString encoding (stream\<lparr>unread := rest\<rparr>) of
               (Inl err, stream') \<Rightarrow> ((0, [], Some err), stream')
             | (Inr errMsg, stream') \<Rightarrow> ((b, errMsg, None), stream')))"

text \<open>
  \<^verbatim>\<open>WriteChunk\<close>, \<^verbatim>\<open>chunkWriter\<close>, \<^verbatim>\<open>readResponseChunk\<close> and \<^verbatim>\<open>ReadChunkedBlock\<close>, as in the
  source. The package-level \<^verbatim>\<open>maxChunkSize\<close> and \<^verbatim>\<open>defaultWriteDuration\<close> are not among
  the sources and are parameters; the encoding stands for \<^verbatim>\<open>p2p.Encoding()\<close>.
\<close>

definition WriteChunk ::
  "nat \<Rightarrow> Stream \<Rightarrow> 'm NetworkEncoding \<Rightarrow> 'm \<Rightarrow> error option \<times> Stream" where
  "WriteChunk maxChunkSize stream encoding msg =
     (case stream_Write stream [responseCodeSuccess] of
        (Some err, stream') \<Rightarrow> (Some err, stream')
      | (None, stream') \<Rightarrow> EncodeWithMaxLength encoding stream' msg maxChunkSize)"

definition chunkWriter ::
  "nat \<Rightarrow> nat \<Rightarrow> 'm NetworkEncoding \<Rightarrow> Stream \<Rightarrow> 'm \<Rightarrow> error option \<times> Stream" where
  "chunkWriter defaultWriteDuration maxChunkSize encoding stream msg =
     WriteChunk maxChunkSize (SetStreamWriteDeadline stream defaultWriteDuration) encoding msg"

definition readResponseChunk ::
  "nat \<Rightarrow> Stream \<Rightarrow> 'm NetworkEncoding \<Rightarrow> (error + 'm) \<times> Stream" where
  "readResponseChunk maxChunkSize stream encoding =
     (case ReadStatusCode (SetStreamReadDeadline stream 10) encoding of
        ((code, errMsg, Some err), stream') \<Rightarrow> (Inl err, stream')
      | ((code, errMsg, None), stream') \<Rightarrow>
          if code \<noteq> 0 then (Inl (ErrorsNew errMsg), stream')
          else DecodeWithMaxLength encoding stream' maxChunkSize)"

definition ReadChunkedBlock ::
  "nat \<Rightarrow> Stream \<Rightarrow> SignedBeaconBlock NetworkEncoding
     \<Rightarrow> (error + SignedBeaconBlock) \<times> Stream" where
  "ReadChunkedBlock maxChunkSize stream encoding = readResponseChunk maxChunkSize stream encoding"

subsection \<open>A length-prefixing encoder\<close>

text \<open>
  Modelled from the spec: the payload encoder (package beacon-chain/p2p/encoder) is not
  among the sources; its header is a length prefix (section 6). The prefix is written as
  an unsigned varint: seven bits to a byte, the low group first, the high bit set on every
  byte but the last.
\<close>

fun putUvarint :: "nat \<Rightarrow> byte list" where
  "putUvarint n =
     (if n < 128 then [of_nat n] else of_nat (128 + n mod 128) # putUvarint (n div 128))"

text \<open>
  Modelled from the spec: reading the length prefix back, with the bytes that follow it;
  \<open>None\<close> when the bytes end before the prefix does.
\<close>

fun getUvarint :: "byte list \<Rightarrow> (nat \<times> byte list) option" where
  "getUvarint [] = None"
| "getUvarint (b # bs) =
     (if b < 128 then Some (unat b, bs)
      else (case getUvarint bs of
              None \<Rightarrow> None
            | Some (v, rest) \<Rightarrow> Some (unat b - 128 + 128 * v, rest)))"

text \<open>
  Modelled from the spec: the payload of a failure chunk is an encoding of the error
  string (section 6); here, its bytes.
\<close>

definition bytes_of_string :: "string \<Rightarrow> byte list" where
  "bytes_of_string = map (\<lambda>c. of_nat (of_char c))"

text \<open>Modelled from the spec: the error string of a failure chunk, from its bytes.\<close>

definition string_of_bytes :: "byte list \<Rightarrow> string" where
  "string_of_bytes = map (\<lambda>b. char_of (unat b))"

text \<open>
  Modelled from the spec: the read path of the payload encoder, which is not among the
  sources. Section 6: the read path enforces the maximum length and rejects an oversized
  frame before the payload is decoded; section 4.1: reading fails with
  \<open>EncodingTooLarge\<close> or \<open>MalformedPayload\<close>. Here: the length prefix is read, then
  checked against the bound when there is one, then that many bytes are taken and handed
  to \<open>unmarshal\<close>, which stands for the serialisation of the message itself, external
  to the spec.
\<close>

definition readPrefixed ::
  "(byte list \<Rightarrow> 'a option) \<Rightarrow> Stream \<Rightarrow> nat option \<Rightarrow> (error + 'a) \<times> Stream" where
  "readPrefixed unmarshal stream maxSize =
     (case getUvarint (unread stream) of
        None \<Rightarrow> (Inl MalformedPayload, stream)
      | Some (msgLen, rest) \<Rightarrow>
          if (case maxSize of None \<Rightarrow> False | Some m \<Rightarrow> msgLen > m)
          then (Inl EncodingTooLarge, stream\<lparr>unread := rest\<rparr>)
          else if length rest < msgLen then (Inl MalformedPayload, stream\<lparr>unread := rest\<rparr>)
          else
            (case unmarshal (take msgLen rest) of
               None \<Rightarrow> (Inl MalformedPayload, stream\<lparr>unread := drop msgLen rest\<rparr>)
             | Some v \<Rightarrow> (Inr v, stream\<lparr>unread := drop msgLen rest\<rparr>)))"

text \<open>
  Modelled from the spec: the payload encoder (package beacon-chain/p2p/encoder) is not
  among the sources. Section 6: after the result byte come the encoding-dependent header,
  a length prefix, and the encoded payload, and the write path and the read path enforce
  the same maximum length. Section 4.1: writing fails with \<open>EncodingTooLarge\<close> when the
  encoded message exceeds the bound and with \<open>IOError\<close> when the transport fails. The
  error string of a failure chunk is read the same way, without a bound.
\<close>

definition lengthPrefixed ::
  "('m \<Rightarrow> byte list) \<Rightarrow> (byte list \<Rightarrow> 'm option) \<Rightarrow> 'm NetworkEncoding" where
  "lengthPrefixed marshal unmarshal =
     \<lparr>EncodeWithMaxLength = (\<lambda>stream msg maxSize.
          if length (marshal msg) > maxSize then (Some EncodingTooLarge, stream)
          else
            (case stream_Write stream (putUvarint (length (marshal msg))) of
               (Some err, stream') \<Rightarrow> (Some err, stream')
             | (None, stream') \<Rightarrow> stream_Write stream' (marshal msg))),
      DecodeWithMaxLength = (\<lambda>stream maxSize. readPrefixed unmarshal stream (Some maxSize)),
      DecodeErrorString = (\<lambda>stream.
          readPrefixed (\<lambda>bs. Some (string_of_bytes bs)) stream None)\<rparr>"

text \<open>
  The bytes of a success chunk, as the comment of \<^verbatim>\<open>WriteChunk\<close> lays them out,
  \<^verbatim>\<open>response_chunk ::= | <result> | <encoding-dependent-header> | <encoded-payload>\<close>, with
  the header of the length-prefixing encoder.
\<close>

definition chunk_frame :: "('m \<Rightarrow> byte list) \<Rightarrow> 'm \<Rightarrow> byte list" where
  "chunk_frame marshal msg =
     responseCodeSuccess # putUvarint (length (marshal msg)) @ marshal msg"

text \<open>The bytes of a failure chunk: a nonzero result byte, then the error string.\<close>

definition error_frame :: "byte \<Rightarrow> string \<Rightarrow> byte list" where
  "error_frame code errMsg =
     code # putUvarint (length (bytes_of_string errMsg)) @ bytes_of_string errMsg"

text \<open>A fresh stream end, and the encoding of raw byte strings.\<close>

definition fresh_stream :: Stream where
  "fresh_stream =
     \<lparr>unread = [], written = [], readDeadline = None, writeDeadline = None, faultAfter = None\<rparr>"

definition rawEncoding :: "byte list NetworkEncoding" where
  "rawEncoding = lengthPrefixed (\<lambda>bs. bs) Some"

text \<open>The batch requests a log records, with the peer each was sent to, in order.\<close>

fun sentRequests :: "logline list \<Rightarrow> (BeaconBlocksByRangeRequest \<times> peer_ID) list" where
  "sentRequests [] = []"
| "sentRequests (SendingBatchBlockRequest req pid # ls) = (req, pid) # sentRequests ls"
| "sentRequests (l # ls) = sentRequests ls"

section \<open>Properties of the admission gate\<close>

lemma processBlock_reject_lps:
  "processBlock C r s blk = (Some err, s') \<Longrightarrow> lastProcessedSlot s' = lastProcessedSlot s"
  by (auto simp: processBlock_def Let_def logSyncStatus_def log_line_def
           split: if_splits sum.splits prod.splits option.splits)

lemma processBlock_stale:
  "Slot blk \<le> lastProcessedSlot s \<Longrightarrow>
     processBlock C r s blk = (Some (SlotAlreadyProcessed (Slot blk)), s)"
  by (simp add: processBlock_def)

lemma acceptedBlocks_above:
  "b \<in> set (acceptedBlocks C s calls) \<Longrightarrow> lastProcessedSlot s < Slot b"
proof (induction calls arbitrary: s)
  case Nil
  then show ?case by simp
next
  case (Cons call calls)
  obtain between recv blk where call: "call = (between, recv, blk)" by (cases call)
  let ?s = "(between s)\<lparr>lastProcessedSlot := lastProcessedSlot s\<rparr>"
  have keep: "lastProcessedSlot ?s = lastProcessedSlot s" by simp
  obtain r s1 where p: "processBlock C recv ?s blk = (r, s1)"
    by (cases "processBlock C recv ?s blk")
  show ?case
  proof (cases r)
    case None
    with p keep have acc: "lastProcessedSlot s < Slot blk" "lastProcessedSlot s1 = Slot blk"
      using processBlock_accept_lps[of C recv ?s blk s1] by simp_all
    from Cons.prems call p None have "b = blk \<or> b \<in> set (acceptedBlocks C s1 calls)"
      by simp
    then show ?thesis
    proof
      assume "b = blk"
      with acc show ?thesis by simp
    next
      assume "b \<in> set (acceptedBlocks C s1 calls)"
      then have "lastProcessedSlot s1 < Slot b" by (rule Cons.IH)
      with acc show ?thesis by simp
    qed
  next
    case (Some err)
    with p keep have same: "lastProcessedSlot s1 = lastProcessedSlot s"
      using processBlock_reject_lps[of C recv ?s blk err s1] by simp
    from Cons.prems call p Some have "b \<in> set (acceptedBlocks C s1 calls)" by simp
    then have "lastProcessedSlot s1 < Slot b" by (rule Cons.IH)
    with same show ?thesis by simp
  qed
qed

lemma acceptedBlocks_increasing:
  "sorted_wrt (<) (map Slot (acceptedBlocks C s calls))"
proof (induction calls arbitrary: s)
  case Nil
  then show ?case by simp
next
  case (Cons call calls)
  obtain between recv blk where call: "call = (between, recv, blk)" by (cases call)
  let ?s = "(between s)\<lparr>lastProcessedSlot := lastProcessedSlot s\<rparr>"
  obtain r s1 where p: "processBlock C recv ?s blk = (r, s1)"
    by (cases "processBlock C recv ?s blk")
  show ?case
  proof (cases r)
    case None
    with p have acc: "lastProcessedSlot s1 = Slot blk"
      using processBlock_accept_lps[of C recv ?s blk s1] by simp
    have "\<forall>b \<in> set (acceptedBlocks C s1 calls). Slot blk < Slot b"
      using acceptedBlocks_above[of _ C s1 calls] acc by auto
    with call p None Cons.IH[of s1] show ?thesis by simp
  next
    case (Some err)
    with call p Cons.IH[of s1] show ?thesis by simp
  qed
qed

text \<open>
  C1. A block whose slot is at most \<open>lastProcessedSlot\<close> is rejected with the error
  "slot already processed" and the service is left as it was; a block the gate accepts has
  a slot above the watermark and becomes the new watermark. Hence, over any sequence of
  calls of the gate, whatever else the service does between them, the slots of the
  accepted blocks are strictly increasing, all above the watermark the sequence started
  from, and pairwise different.
\<close>

theorem processBlock_slot_monotonic:
  "(Slot blk \<le> lastProcessedSlot s \<longrightarrow>
      processBlock C recv s blk = (Some (SlotAlreadyProcessed (Slot blk)), s))
   \<and> (processBlock C recv s blk = (None, s') \<longrightarrow>
        lastProcessedSlot s < Slot blk \<and> lastProcessedSlot s' = Slot blk)
   \<and> sorted_wrt (<) (map Slot (acceptedBlocks C s calls))
   \<and> (\<forall>b \<in> set (acceptedBlocks C s calls). lastProcessedSlot s < Slot b)
   \<and> distinct (map Slot (acceptedBlocks C s calls))"
proof (intro conjI impI ballI)
  show "sorted_wrt (<) (map Slot (acceptedBlocks C s calls))"
    by (rule acceptedBlocks_increasing)
  then show "distinct (map Slot (acceptedBlocks C s calls))"
    by (simp add: strict_sorted_iff)
qed (simp_all add: processBlock_stale processBlock_accept_lps acceptedBlocks_above)

theorem processBlock_slot_monotonic_witness:
  "processBlock exampleC example_receive gate_service (example_block 3 [1] [5])
      = (Some (SlotAlreadyProcessed 3), gate_service)
   \<and> lastProcessedSlot (snd (processBlock exampleC example_receive gate_service
        (example_block 5 [1] [5]))) = 5
   \<and> map Slot (acceptedBlocks exampleC gate_service gate_calls) = [5, 9]
   \<and> sorted_wrt (<) (map Slot (acceptedBlocks exampleC gate_service gate_calls))
   \<and> distinct (map Slot (acceptedBlocks exampleC gate_service gate_calls))"
proof -
  have stale: "Slot (example_block 3 [1] [5]) \<le> lastProcessedSlot gate_service"
    by (simp add: example_block_def gate_service_def example_service_def)
  have acc: "processBlock exampleC example_receive gate_service (example_block 5 [1] [5])
      = (None, snd (processBlock exampleC example_receive gate_service (example_block 5 [1] [5])))"
    by (simp add: gate_service_def example_service_def exampleC_def example_block_def
          example_receive_def processBlock_def logSyncStatus_def log_line_def)
  have run: "map Slot (acceptedBlocks exampleC gate_service gate_calls) = [5, 9]"
    by (simp add: gate_calls_def gate_service_def example_service_def exampleC_def
          example_block_def example_receive_def processBlock_def logSyncStatus_def log_line_def)
  from processBlock_slot_monotonic[of "example_block 3 [1] [5]" gate_service exampleC
      example_receive gate_service gate_calls] stale
  have a: "processBlock exampleC example_receive gate_service (example_block 3 [1] [5])
      = (Some (SlotAlreadyProcessed 3), gate_service)"
    by (simp add: example_block_def)
  from processBlock_slot_monotonic[of "example_block 5 [1] [5]" gate_service exampleC
      example_receive "snd (processBlock exampleC example_receive gate_service
        (example_block 5 [1] [5]))" gate_calls] acc
  have b: "lastProcessedSlot (snd (processBlock exampleC example_receive gate_service
        (example_block 5 [1] [5]))) = 5
     \<and> sorted_wrt (<) (map Slot (acceptedBlocks exampleC gate_service gate_calls))
     \<and> distinct (map Slot (acceptedBlocks exampleC gate_service gate_calls))"
    by (simp add: example_block_def)
  from a b run show ?thesis by simp
qed

text \<open>
  C2. A block above the watermark whose root is computed and whose parent root is in
  neither the database nor the in-flight cache is rejected with the error "beacon node
  doesn't have a block in db with root ...". The service after the rejection differs only
  in the rate counter and the log: the watermark and the node are as before, and every
  block the gate would have accepted before the rejection is still accepted after it,
  with the same effect on the watermark and the node.
\<close>

theorem processBlock_orphan:
  assumes "lastProcessedSlot s < Slot blk"
    and "BlockRoot C blk = Inr blkRoot"
    and "\<not> HasBlock C (chain_db s) (ToBytes32 C (ParentRoot blk))"
    and "\<not> HasInitSyncBlock C (chain_db s) (ToBytes32 C (ParentRoot blk))"
  shows "processBlock C recv s blk
           = (Some (NoParentInDb (ParentRoot blk)), logSyncStatus s blk blkRoot)
     \<and> lastProcessedSlot (logSyncStatus s blk blkRoot) = lastProcessedSlot s
     \<and> chain_db (logSyncStatus s blk blkRoot) = chain_db s
     \<and> (\<forall>recv' blk' t. processBlock C recv' s blk' = (None, t) \<longrightarrow>
           (\<exists>t'. processBlock C recv' (logSyncStatus s blk blkRoot) blk' = (None, t')
                 \<and> lastProcessedSlot t' = Slot blk' \<and> chain_db t' = chain_db t))"
proof (intro conjI allI impI)
  from assms show "processBlock C recv s blk
           = (Some (NoParentInDb (ParentRoot blk)), logSyncStatus s blk blkRoot)"
    by (simp add: processBlock_def Let_def logSyncStatus_def log_line_def)
  show "lastProcessedSlot (logSyncStatus s blk blkRoot) = lastProcessedSlot s"
    by (simp add: logSyncStatus_def log_line_def)
  show "chain_db (logSyncStatus s blk blkRoot) = chain_db s"
    by (simp add: logSyncStatus_def log_line_def)
next
  fix recv' blk' t
  assume ok: "processBlock C recv' s blk' = (None, t)"
  let ?s = "logSyncStatus s blk blkRoot"
  have same: "lastProcessedSlot ?s = lastProcessedSlot s" "chain_db ?s = chain_db s"
    by (simp_all add: logSyncStatus_def log_line_def)
  from ok have slot: "\<not> Slot blk' \<le> lastProcessedSlot s"
    by (auto simp: processBlock_def)
  from ok slot obtain r where r: "BlockRoot C blk' = Inr r"
    by (cases "BlockRoot C blk'") (auto simp: processBlock_def)
  from ok slot r have parent:
    "\<not> (\<not> HasBlock C (chain_db s) (ToBytes32 C (ParentRoot blk'))
        \<and> \<not> HasInitSyncBlock C (chain_db s) (ToBytes32 C (ParentRoot blk')))"
    by (auto simp: processBlock_def Let_def logSyncStatus_def log_line_def split: if_splits)
  from ok slot r parent obtain c' where recv: "recv' (chain_db s) blk' r = (None, c')"
    and t: "chain_db t = c'"
    by (cases "recv' (chain_db s) blk' r")
       (auto simp: processBlock_def Let_def logSyncStatus_def log_line_def split: option.splits)
  let ?t = "(logSyncStatus ?s blk' r)\<lparr>chain_db := c', lastProcessedSlot := Slot blk'\<rparr>"
  from slot r parent recv same have "processBlock C recv' ?s blk' = (None, ?t)"
    by (simp add: processBlock_def Let_def logSyncStatus_def log_line_def)
  moreover have "lastProcessedSlot ?t = Slot blk'" "chain_db ?t = chain_db t"
    using t by simp_all
  ultimately show "\<exists>t'. processBlock C recv' ?s blk' = (None, t')
                 \<and> lastProcessedSlot t' = Slot blk' \<and> chain_db t' = chain_db t"
    by blast
qed

theorem processBlock_orphan_witness:
  "fst (processBlock exampleC example_receive orphan_service orphan_block)
       = Some (NoParentInDb [7])
   \<and> lastProcessedSlot (snd (processBlock exampleC example_receive orphan_service orphan_block))
       = 49
   \<and> fst (processBlock exampleC example_receive
        (snd (processBlock exampleC example_receive orphan_service orphan_block))
        (example_block 51 [49] [51])) = None"
proof -
  have valid: "processBlock exampleC example_receive orphan_service (example_block 51 [49] [51])
      = (None, snd (processBlock exampleC example_receive orphan_service
                      (example_block 51 [49] [51])))"
    by (simp add: orphan_service_def example_simps)
  have "lastProcessedSlot orphan_service < Slot orphan_block"
    and "BlockRoot exampleC orphan_block = Inr [50]"
    and "\<not> HasBlock exampleC (chain_db orphan_service) (ToBytes32 exampleC (ParentRoot orphan_block))"
    and "\<not> HasInitSyncBlock exampleC (chain_db orphan_service)
            (ToBytes32 exampleC (ParentRoot orphan_block))"
    by (simp_all add: orphan_service_def orphan_block_def example_simps)
  from processBlock_orphan[OF this, of example_receive]
  have rej: "processBlock exampleC example_receive orphan_service orphan_block
      = (Some (NoParentInDb (ParentRoot orphan_block)),
         logSyncStatus orphan_service orphan_block [50])"
    and lps: "lastProcessedSlot (logSyncStatus orphan_service orphan_block [50])
      = lastProcessedSlot orphan_service"
    and later: "\<forall>recv' blk' t.
       processBlock exampleC recv' orphan_service blk' = (None, t) \<longrightarrow>
         (\<exists>t'. processBlock exampleC recv' (logSyncStatus orphan_service orphan_block [50]) blk'
                 = (None, t')
               \<and> lastProcessedSlot t' = Slot blk' \<and> chain_db t' = chain_db t)"
    by blast+
  from later valid
  have "fst (processBlock exampleC example_receive
          (logSyncStatus orphan_service orphan_block [50]) (example_block 51 [49] [51])) = None"
    by fastforce
  with rej lps show ?thesis
    by (simp add: orphan_block_def orphan_service_def example_block_def example_service_def)
qed

section \<open>Properties of the orchestrator\<close>

lemma highestFinalizedEpoch_foldl:
  "foldl (\<lambda>highest pid.
            (case ChainState C n pid of
               (Some peerChainState, None) \<Rightarrow>
                 if FinalizedEpoch peerChainState > highest
                 then FinalizedEpoch peerChainState else highest
             | _ \<Rightarrow> highest)) h pids
   = Max (set (h # concat (map (\<lambda>pid. case ChainState C n pid of
                            (Some peerChainState, None) \<Rightarrow> [FinalizedEpoch peerChainState]
                          | _ \<Rightarrow> []) pids)))"
proof (induction pids arbitrary: h)
  case Nil
  then show ?case by simp
next
  case (Cons pid pids)
  let ?rest = "concat (map (\<lambda>pid. case ChainState C n pid of
                            (Some peerChainState, None) \<Rightarrow> [FinalizedEpoch peerChainState]
                          | _ \<Rightarrow> []) pids)"
  obtain st err where cs: "ChainState C n pid = (st, err)" by (cases "ChainState C n pid")
  show ?case
  proof (cases "\<exists>x. st = Some x \<and> err = None")
    case True
    then obtain x where x: "st = Some x" "err = None" by blast
    have step: "(case ChainState C n pid of
               (Some peerChainState, None) \<Rightarrow>
                 if FinalizedEpoch peerChainState > h
                 then FinalizedEpoch peerChainState else h
             | _ \<Rightarrow> h) = max h (FinalizedEpoch x)"
      using cs x by (auto simp: max_def)
    have item: "(case ChainState C n pid of
                            (Some peerChainState, None) \<Rightarrow> [FinalizedEpoch peerChainState]
                          | _ \<Rightarrow> []) = [FinalizedEpoch x]"
      using cs x by simp
    have "Max (set (max h (FinalizedEpoch x) # ?rest))
            = Max (set (h # FinalizedEpoch x # ?rest))"
      by (simp only: Max.set_eq_fold fold_simps max.commute[of "FinalizedEpoch x" h])
    with Cons.IH[of "max h (FinalizedEpoch x)"] show ?thesis
      by (simp only: foldl_Cons step list.map concat.simps item append_Cons append_Nil)
  next
    case False
    with cs have "(case ChainState C n pid of
               (Some peerChainState, None) \<Rightarrow>
                 if FinalizedEpoch peerChainState > h
                 then FinalizedEpoch peerChainState else h
             | _ \<Rightarrow> h) = h"
      and "(case ChainState C n pid of
                            (Some peerChainState, None) \<Rightarrow> [FinalizedEpoch peerChainState]
                          | _ \<Rightarrow> []) = []"
      by (auto split: option.splits)
    with Cons.IH[of h] show ?thesis by simp
  qed
qed

text \<open>
  C10. \<open>highestFinalizedEpoch\<close> is the maximum of 0 and the finalized epochs of the
  connected peers whose chain state is retrievable. With no such peer (in particular with
  no connected peer, or when every lookup fails) it is 0, and the target handed to the
  queue is the start slot of epoch 1.
\<close>

theorem highestFinalizedEpoch_max:
  "highestFinalizedEpoch C n = Max (set (0 # retrievableEpochs C n))
   \<and> (retrievableEpochs C n = [] \<longrightarrow>
        highestFinalizedEpoch C n = 0 \<and> highestFinalizedSlot C n = helpers_StartSlot C 1)
   \<and> (Connected C n = [] \<longrightarrow> retrievableEpochs C n = [])
   \<and> ((\<forall>pid \<in> set (Connected C n). snd (ChainState C n pid) \<noteq> None) \<longrightarrow>
        retrievableEpochs C n = [])"
proof -
  have m: "highestFinalizedEpoch C n = Max (set (0 # retrievableEpochs C n))"
    unfolding highestFinalizedEpoch_def retrievableEpochs_def
    by (rule highestFinalizedEpoch_foldl)
  have e: "highestFinalizedEpoch C n = 0 \<and> highestFinalizedSlot C n = helpers_StartSlot C 1"
    if "retrievableEpochs C n = []"
    using that m by (simp add: highestFinalizedSlot_def)
  have c: "retrievableEpochs C n = []" if "Connected C n = []"
    using that by (simp add: retrievableEpochs_def)
  have f: "retrievableEpochs C n = []"
    if "\<forall>pid \<in> set (Connected C n). snd (ChainState C n pid) \<noteq> None"
    using that by (auto simp: retrievableEpochs_def split: prod.splits option.splits)
  from m e c f show ?thesis by blast
qed

theorem highestFinalizedEpoch_max_witness:
  "highestFinalizedEpoch three_peersC three_peers = 9
   \<and> retrievableEpochs three_peersC three_peers = [4, 9]
   \<and> highestFinalizedEpoch exampleC (three_peers\<lparr>peers := []\<rparr>) = 0
   \<and> highestFinalizedSlot exampleC (three_peers\<lparr>peers := []\<rparr>) = 32
   \<and> highestFinalizedEpoch (three_peersC\<lparr>ChainState := (\<lambda>n pid. (None, Some (Collaborator ''down'')))\<rparr>)
        three_peers = 0"
proof -
  have r: "retrievableEpochs three_peersC three_peers = [4, 9]"
    by (simp add: retrievableEpochs_def three_peersC_def three_peers_def exampleC_def)
  have c: "Connected exampleC (three_peers\<lparr>peers := []\<rparr>) = []"
    by (simp add: exampleC_def)
  have f: "\<forall>pid \<in> set (Connected (three_peersC\<lparr>ChainState := (\<lambda>n pid. (None, Some (Collaborator ''down'')))\<rparr>) three_peers).
        snd (ChainState (three_peersC\<lparr>ChainState := (\<lambda>n pid. (None, Some (Collaborator ''down'')))\<rparr>) three_peers pid) \<noteq> None"
    by simp
  from highestFinalizedEpoch_max[of three_peersC three_peers] r
  have a: "highestFinalizedEpoch three_peersC three_peers = 9" by simp
  from highestFinalizedEpoch_max[of exampleC "three_peers\<lparr>peers := []\<rparr>"] c
  have b: "highestFinalizedEpoch exampleC (three_peers\<lparr>peers := []\<rparr>) = 0
     \<and> highestFinalizedSlot exampleC (three_peers\<lparr>peers := []\<rparr>) = 32"
    by (simp add: exampleC_def)
  from highestFinalizedEpoch_max[of "three_peersC\<lparr>ChainState := (\<lambda>n pid. (None, Some (Collaborator ''down'')))\<rparr>" three_peers] f
  have d: "highestFinalizedEpoch (three_peersC\<lparr>ChainState := (\<lambda>n pid. (None, Some (Collaborator ''down'')))\<rparr>)
        three_peers = 0"
    by blast
  from a b d r show ?thesis by simp
qed

text \<open>
  C6. In step 2, with the head below the target, a response without blocks ends the loop:
  the result is \<^verbatim>\<open>nil\<close>, nothing but the request is logged, and the head is where it was,
  below the target.
\<close>

theorem syncToHead_empty_batch:
  assumes "HeadSlot C (chain_db s) < head"
    and "requestBlocks C (p2p_net s) (batchRequest C s) best = (Inr [], n')"
  shows "syncToHead C best head s
           = (None, (log_line (SendingBatchBlockRequest (batchRequest C s) best) s)
                      \<lparr>p2p_net := n'\<rparr>)
     \<and> HeadSlot C (chain_db (snd (syncToHead C best head s))) = HeadSlot C (chain_db s)
     \<and> HeadSlot C (chain_db (snd (syncToHead C best head s))) < head
     \<and> lastProcessedSlot (snd (syncToHead C best head s)) = lastProcessedSlot s"
proof -
  from assms have "syncToHead C best head s
           = (None, (log_line (SendingBatchBlockRequest (batchRequest C s) best) s)
                      \<lparr>p2p_net := n'\<rparr>)"
    by (subst syncToHead.simps) simp
  with assms(1) show ?thesis by (simp add: log_line_def)
qed

theorem syncToHead_empty_batch_witness:
  "fst (syncToHead exampleC ''p1'' 10 behind_service) = None
   \<and> head_slot (chain_db (snd (syncToHead exampleC ''p1'' 10 behind_service))) = 2
   \<and> logged (snd (syncToHead exampleC ''p1'' 10 behind_service))
       = [SendingBatchBlockRequest \<lparr>StartSlot = 3, Count = 9, Step = 1\<rparr> ''p1'']"
proof -
  have "HeadSlot exampleC (chain_db behind_service) < 10"
    and "requestBlocks exampleC (p2p_net behind_service) (batchRequest exampleC behind_service) ''p1''
           = (Inr [], p2p_net behind_service)"
    by (simp_all add: behind_service_def example_simps)
  from syncToHead_empty_batch[OF this]
  show ?thesis
    by (simp add: behind_service_def batchRequest_def mathutil_Min_def example_simps)
qed

lemma sentRequests_append: "sentRequests (xs @ ys) = sentRequests xs @ sentRequests ys"
  by (induction xs rule: sentRequests.induct) simp_all

lemma processBlock_sentRequests:
  "sentRequests (logged (snd (processBlock C r s blk))) = sentRequests (logged s)"
  by (auto simp: processBlock_def Let_def logSyncStatus_def log_line_def sentRequests_append
           split: sum.splits prod.splits option.splits)

lemma processBatch_sentRequests:
  "sentRequests (logged (snd (processBatch C s resp))) = sentRequests (logged s)"
proof (induction resp arbitrary: s)
  case Nil
  then show ?case by simp
next
  case (Cons blk rest)
  obtain r s1 where p: "processBlock C (ReceiveBlockNoPubsub C) s blk = (r, s1)"
    by (cases "processBlock C (ReceiveBlockNoPubsub C) s blk")
  with processBlock_sentRequests[of C "ReceiveBlockNoPubsub C" s blk]
  have s1: "sentRequests (logged s1) = sentRequests (logged s)" by simp
  show ?case
  proof (cases r)
    case None
    with p s1 Cons.IH[of s1] show ?thesis by simp
  next
    case (Some err)
    with p s1 show ?thesis by simp
  qed
qed

lemma syncToHead_sentRequests:
  assumes "(req, pid) \<in> set (sentRequests (logged (snd (syncToHead C best head s))))"
  shows "(req, pid) \<in> set (sentRequests (logged s))
         \<or> (pid = best \<and> (\<exists>s'. req = batchRequest C s' \<and> HeadSlot C (chain_db s') < head))"
  using assms
proof (induction C best head s rule: syncToHead.induct)
  case (1 C best head s)
  show ?case
  proof (cases "HeadSlot C (chain_db s) < head")
    case False
    with "1.prems" show ?thesis by (subst (asm) syncToHead.simps) simp
  next
    case guard: True
    let ?q = "SendingBatchBlockRequest (batchRequest C s) best"
    obtain r n' where rq: "requestBlocks C (p2p_net s) (batchRequest C s) best = (r, n')"
      by (cases "requestBlocks C (p2p_net s) (batchRequest C s) best")
    let ?s1 = "(log_line ?q s)\<lparr>p2p_net := n'\<rparr>"
    have here: "set (sentRequests (logged ?s1))
                  = insert (batchRequest C s, best) (set (sentRequests (logged s)))"
      by (simp add: log_line_def sentRequests_append)
    have known: ?thesis if "(req, pid) \<in> set (sentRequests (logged ?s1))"
      using that here guard by auto
    show ?thesis
    proof (cases r)
      case (Inl err)
      with guard rq have "syncToHead C best head s
          = (None, log_line (FailedToReceiveBlocks err) ?s1)"
        by (subst syncToHead.simps) simp
      with "1.prems" have "(req, pid) \<in> set (sentRequests (logged ?s1))"
        by (simp add: log_line_def sentRequests_append)
      then show ?thesis by (rule known)
    next
      case (Inr resp)
      obtain e s2 where pb: "processBatch C ?s1 resp = (e, s2)"
        by (cases "processBatch C ?s1 resp")
      with processBatch_sentRequests[of C ?s1 resp]
      have s2: "sentRequests (logged s2) = sentRequests (logged ?s1)" by simp
      show ?thesis
      proof (cases e)
        case (Some err)
        with guard rq Inr pb have "syncToHead C best head s
            = (None, log_line (FailedToProcessBlock err) s2)"
          by (subst syncToHead.simps) simp
        with "1.prems" s2 have "(req, pid) \<in> set (sentRequests (logged ?s1))"
          by (simp add: log_line_def sentRequests_append)
        then show ?thesis by (rule known)
      next
        case None
        show ?thesis
        proof (cases "resp = []")
          case True
          with guard rq Inr pb None have "syncToHead C best head s = (None, s2)"
            by (subst syncToHead.simps) simp
          with "1.prems" s2 have "(req, pid) \<in> set (sentRequests (logged ?s1))" by simp
          then show ?thesis by (rule known)
        next
          case False
          with guard rq Inr pb None have eq: "syncToHead C best head s = syncToHead C best head s2"
            by (subst syncToHead.simps) simp
          from "1.prems" eq
          have "(req, pid) \<in> set (sentRequests (logged (snd (syncToHead C best head s2))))"
            by simp
          from "1.IH"[OF guard rq[symmetric] Inr pb[symmetric] None False this]
          have "(req, pid) \<in> set (sentRequests (logged s2))
             \<or> (pid = best \<and> (\<exists>s'. req = batchRequest C s' \<and> HeadSlot C (chain_db s') < head))" .
          then show ?thesis
          proof
            assume "(req, pid) \<in> set (sentRequests (logged s2))"
            with s2 have "(req, pid) \<in> set (sentRequests (logged ?s1))" by simp
            then show ?thesis by (rule known)
          next
            assume "pid = best \<and> (\<exists>s'. req = batchRequest C s' \<and> HeadSlot C (chain_db s') < head)"
            then show ?thesis by simp
          qed
        qed
      qed
    qed
  qed
qed

text \<open>
  C8, as stated, fails on the code. The loop reads its target once, before the first
  iteration, and reads the clock again in every iteration to build the count; the guard
  compares the head with the target, not with the clock of the iteration. With the head at
  slot 5, the clock at slot 3 and the target 10 the guard holds and the subtraction
  \<open>3 - 5\<close> wraps around to \<open>2 ^ 64 - 2\<close>. The same happens inside a run of
  \<open>roundRobinSync\<close>: the node starts at head 0 with the clock at slot 10, the peer
  serves the blocks of slots 1 to 3, and the clock then reads slot 1; the guard \<open>3 < 10\<close>
  still holds, \<open>1 - 3 + 1\<close> wraps around to \<open>2 ^ 64 - 1\<close>, and the second request
  asks for 64 blocks from slot 4.
\<close>

theorem batchRequest_underflow_counterexample:
  "HeadSlot exampleC (chain_db rewound_service) < 10
   \<and> SlotsSince exampleC (p2p_net rewound_service) - HeadSlot exampleC (chain_db rewound_service)
       = 18446744073709551614
   \<and> unat (SlotsSince exampleC (p2p_net rewound_service))
         - unat (HeadSlot exampleC (chain_db rewound_service)) = 0
   \<and> batchRequest exampleC rewound_service = \<lparr>StartSlot = 6, Count = 64, Step = 1\<rparr>
   \<and> fst (the (roundRobinSync rewindC (run_service rewind_batches))) = None
   \<and> sentRequests (logged (snd (the (roundRobinSync rewindC (run_service rewind_batches)))))
       = [(\<lparr>StartSlot = 1, Count = 11, Step = 1\<rparr>, ''p1''),
          (\<lparr>StartSlot = 4, Count = 64, Step = 1\<rparr>, ''p1'')]
   \<and> head_slot (chain_db (snd (the (roundRobinSync rewindC (run_service rewind_batches))))) = 3
   \<and> now (p2p_net (snd (the (roundRobinSync rewindC (run_service rewind_batches))))) = 1"
  by (simp add: rewound_service_def rewindC_def rewind_batches_def run_simps example_simps
        unsigned_minus_1_eq_mask mask_eq_exp_minus_1)

text \<open>
  C8, amended. The request of an iteration of step 2 starts at the slot after the head, has
  step 1, and counts the smaller of \<open>SlotsSince - HeadSlot + 1\<close> (in \<^verbatim>\<open>uint64\<close>
  arithmetic) and the fetcher's \<open>blocksPerSecond\<close>, so the count is at most
  \<open>blocksPerSecond\<close>. While the guard holds and the clock, as the iteration reads it, is
  not behind the target read before the loop, the subtraction does not wrap around and its
  result is positive, and the start slot does not wrap around either. Every request the
  loop logs as sent goes to the selected peer and is the request built this way in some
  state in which the guard held.
\<close>

theorem batchRequest_fields:
  "StartSlot (batchRequest C s) = HeadSlot C (chain_db s) + 1
   \<and> Step (batchRequest C s) = 1
   \<and> Count (batchRequest C s)
       = mathutil_Min (SlotsSince C (p2p_net s) - HeadSlot C (chain_db s) + 1)
           (blocksPerSecond C (p2p_net s))
   \<and> Count (batchRequest C s) \<le> blocksPerSecond C (p2p_net s)
   \<and> unat (Count (batchRequest C s))
       = min (unat (SlotsSince C (p2p_net s) - HeadSlot C (chain_db s) + 1))
             (unat (blocksPerSecond C (p2p_net s)))
   \<and> (HeadSlot C (chain_db s) < head \<and> head \<le> SlotsSince C (p2p_net s) \<longrightarrow>
        unat (SlotsSince C (p2p_net s) - HeadSlot C (chain_db s))
          = unat (SlotsSince C (p2p_net s)) - unat (HeadSlot C (chain_db s))
        \<and> unat (HeadSlot C (chain_db s)) < unat (SlotsSince C (p2p_net s))
        \<and> unat (SlotsSince C (p2p_net s) - HeadSlot C (chain_db s) + 1)
            = (unat (SlotsSince C (p2p_net s)) - unat (HeadSlot C (chain_db s)) + 1) mod 2 ^ 64
        \<and> unat (StartSlot (batchRequest C s)) = unat (HeadSlot C (chain_db s)) + 1)
   \<and> (\<forall>(req, pid) \<in> set (sentRequests (logged (snd (syncToHead C best head s)))).
        (req, pid) \<in> set (sentRequests (logged s))
        \<or> (pid = best \<and> Step req = 1
            \<and> (\<exists>s'. req = batchRequest C s' \<and> HeadSlot C (chain_db s') < head)))"
proof -
  let ?h = "HeadSlot C (chain_db s)" and ?t = "SlotsSince C (p2p_net s)"
    and ?b = "blocksPerSecond C (p2p_net s)"
  have fields: "StartSlot (batchRequest C s) = ?h + 1" "Step (batchRequest C s) = 1"
    "Count (batchRequest C s) = mathutil_Min (?t - ?h + 1) ?b"
    by (simp_all add: batchRequest_def Let_def)
  have le: "mathutil_Min (?t - ?h + 1) ?b \<le> ?b"
    by (auto simp: mathutil_Min_def)
  have mn: "unat (mathutil_Min (?t - ?h + 1) ?b) = min (unat (?t - ?h + 1)) (unat ?b)"
    by (simp add: mathutil_Min_def word_less_nat_alt min_def)
  have guard: "unat (?t - ?h) = unat ?t - unat ?h \<and> unat ?h < unat ?t
                 \<and> unat (?t - ?h + 1) = (unat ?t - unat ?h + 1) mod 2 ^ 64
                 \<and> unat (?h + 1) = unat ?h + 1"
    if "?h < head" "head \<le> ?t"
  proof -
    from that have lt: "?h < ?t" by simp
    then have a: "unat ?h < unat ?t" by (simp add: word_less_nat_alt)
    from lt have "?h \<le> ?t" by simp
    then have b: "unat (?t - ?h) = unat ?t - unat ?h" by (rule unat_sub)
    have "unat ?t < 2 ^ 64" using unsigned_less[of ?t, where 'a = nat] by simp
    with a have "unat ?h + unat (1::uint64) < 2 ^ LENGTH(64)" by simp
    then have c: "unat (?h + 1) = unat ?h + unat (1::uint64)"
      by (simp only: unat_add_lem[THEN iffD1])
    have "unat (?t - ?h + 1) = (unat (?t - ?h) + unat (1::uint64)) mod 2 ^ LENGTH(64)"
      by (rule unat_word_ariths(1))
    with b have d: "unat (?t - ?h + 1) = (unat ?t - unat ?h + 1) mod 2 ^ 64" by simp
    from a b c d show ?thesis by simp
  qed
  have loop: "(req, pid) \<in> set (sentRequests (logged s))
        \<or> (pid = best \<and> Step req = 1
            \<and> (\<exists>s'. req = batchRequest C s' \<and> HeadSlot C (chain_db s') < head))"
    if "(req, pid) \<in> set (sentRequests (logged (snd (syncToHead C best head s))))" for req pid
    using syncToHead_sentRequests[OF that] by (auto simp: batchRequest_def Let_def)
  from fields le mn guard have main: "StartSlot (batchRequest C s) = ?h + 1
     \<and> Step (batchRequest C s) = 1
     \<and> Count (batchRequest C s) = mathutil_Min (?t - ?h + 1) ?b
     \<and> Count (batchRequest C s) \<le> ?b
     \<and> unat (Count (batchRequest C s)) = min (unat (?t - ?h + 1)) (unat ?b)
     \<and> (?h < head \<and> head \<le> ?t \<longrightarrow>
          unat (?t - ?h) = unat ?t - unat ?h
          \<and> unat ?h < unat ?t
          \<and> unat (?t - ?h + 1) = (unat ?t - unat ?h + 1) mod 2 ^ 64
          \<and> unat (StartSlot (batchRequest C s)) = unat ?h + 1)"
    by simp
  from loop
  have every: "\<forall>(req, pid) \<in> set (sentRequests (logged (snd (syncToHead C best head s)))).
        (req, pid) \<in> set (sentRequests (logged s))
        \<or> (pid = best \<and> Step req = 1
            \<and> (\<exists>s'. req = batchRequest C s' \<and> HeadSlot C (chain_db s') < head))"
    by blast
  show ?thesis
    by (intro conjI) (use main every in blast)+
qed

theorem batchRequest_fields_witness:
  "batchRequest exampleC behind_service = \<lparr>StartSlot = 3, Count = 9, Step = 1\<rparr>
   \<and> batchRequest exampleC (behind_service\<lparr>p2p_net := (p2p_net behind_service)\<lparr>now := 500\<rparr>\<rparr>)
       = \<lparr>StartSlot = 3, Count = 64, Step = 1\<rparr>
   \<and> unat (SlotsSince exampleC (p2p_net behind_service) - HeadSlot exampleC (chain_db behind_service))
       = 8
   \<and> sentRequests (logged (snd (syncToHead exampleC ''p1'' 10 (run_service good_batches))))
       = [(\<lparr>StartSlot = 1, Count = 11, Step = 1\<rparr>, ''p1''),
          (\<lparr>StartSlot = 3, Count = 9, Step = 1\<rparr>, ''p1'')]"
proof -
  have g: "HeadSlot exampleC (chain_db behind_service) < 10
           \<and> 10 \<le> SlotsSince exampleC (p2p_net behind_service)"
    by (simp add: behind_service_def example_simps)
  from batchRequest_fields[where C = exampleC and s = behind_service and head = 10] g
  have "unat (SlotsSince exampleC (p2p_net behind_service)
              - HeadSlot exampleC (chain_db behind_service))
          = unat (SlotsSince exampleC (p2p_net behind_service))
            - unat (HeadSlot exampleC (chain_db behind_service))"
    by blast
  then have "unat (SlotsSince exampleC (p2p_net behind_service)
              - HeadSlot exampleC (chain_db behind_service)) = 8"
    by (simp add: behind_service_def example_simps)
  moreover
  have "sentRequests (logged (snd (syncToHead exampleC ''p1'' 10 (run_service good_batches))))
       = [(\<lparr>StartSlot = 1, Count = 11, Step = 1\<rparr>, ''p1''),
          (\<lparr>StartSlot = 3, Count = 9, Step = 1\<rparr>, ''p1'')]"
    by (simp add: run_simps example_simps)
  ultimately show ?thesis
    by (simp add: behind_service_def batchRequest_def mathutil_Min_def example_simps)
qed

lemma syncToHead_nil: "fst (syncToHead C best head s) = None"
proof (induction C best head s rule: syncToHead.induct)
  case (1 C best head s)
  show ?case
  proof (cases "HeadSlot C (chain_db s) < head")
    case False
    then show ?thesis by (subst syncToHead.simps) simp
  next
    case guard: True
    obtain r n' where req: "requestBlocks C (p2p_net s) (batchRequest C s) best = (r, n')"
      by (cases "requestBlocks C (p2p_net s) (batchRequest C s) best")
    show ?thesis
    proof (cases r)
      case (Inl err)
      with guard req show ?thesis by (subst syncToHead.simps) simp
    next
      case (Inr resp)
      let ?s1 = "(log_line (SendingBatchBlockRequest (batchRequest C s) best) s)\<lparr>p2p_net := n'\<rparr>"
      obtain e s' where pb: "processBatch C ?s1 resp = (e, s')"
        by (cases "processBatch C ?s1 resp")
      show ?thesis
      proof (cases e)
        case (Some err)
        with guard req Inr pb show ?thesis by (subst syncToHead.simps) simp
      next
        case None
        show ?thesis
        proof (cases "resp = []")
          case True
          with guard req Inr pb None show ?thesis by (subst syncToHead.simps) simp
        next
          case False
          from "1.IH"[OF guard req[symmetric] Inr pb[symmetric] None False]
          have "fst (syncToHead C best head s') = None" .
          with guard req Inr pb None False show ?thesis by (subst syncToHead.simps) simp
        qed
      qed
    qed
  qed
qed

lemma syncToHead_request_fails:
  assumes "HeadSlot C (chain_db s) < head"
    and "requestBlocks C (p2p_net s) (batchRequest C s) best = (Inl err, n')"
  shows "syncToHead C best head s
           = (None, log_line (FailedToReceiveBlocks err)
                      ((log_line (SendingBatchBlockRequest (batchRequest C s) best) s)
                         \<lparr>p2p_net := n'\<rparr>))"
  using assms by (subst syncToHead.simps) simp

lemma syncToHead_block_fails:
  assumes "HeadSlot C (chain_db s) < head"
    and "requestBlocks C (p2p_net s) (batchRequest C s) best = (Inr resp, n')"
    and "processBatch C ((log_line (SendingBatchBlockRequest (batchRequest C s) best) s)
                           \<lparr>p2p_net := n'\<rparr>) resp = (Some err, s')"
  shows "syncToHead C best head s = (None, log_line (FailedToProcessBlock err) s')"
  using assms by (subst syncToHead.simps) simp

lemma roundRobinSync_result:
  assumes "roundRobinSync C s = Some (r, t)"
  shows "r = fst (queue_start C (p2p_net s) (highestFinalizedSlot C (p2p_net s)))"
proof -
  obtain e n1 where q: "queue_start C (p2p_net s) (highestFinalizedSlot C (p2p_net s)) = (e, n1)"
    by (cases "queue_start C (p2p_net s) (highestFinalizedSlot C (p2p_net s))")
  show ?thesis
  proof (cases e)
    case (Some err)
    with assms q show ?thesis by (simp add: roundRobinSync_def)
  next
    case None
    have nil: "x = None" if "syncToHead C b h y = (x, z)" for b h y x z
      using that syncToHead_nil[of C b h y] by simp
    from assms q None have "r = None"
      by (auto simp: roundRobinSync_def Let_def
               split: option.splits if_splits prod.splits dest: nil)
    with q None show ?thesis by simp
  qed
qed

text \<open>
  C9. Step 2 returns \<^verbatim>\<open>nil\<close> however it ends: in particular when the batch request fails
  and when a block of the batch fails in the gate or the receiver. The value
  \<open>roundRobinSync\<close> returns is the error of starting the blocks queue, and \<^verbatim>\<open>nil\<close> when
  the queue started; once step 1 and the wait for a peer have ended, the run does return.
  So an aborted step 2 and a completed sync return the same value.
\<close>

theorem roundRobinSync_return_value:
  "fst (syncToHead C best head s) = None
   \<and> (HeadSlot C (chain_db s) < head
        \<and> requestBlocks C (p2p_net s) (batchRequest C s) best = (Inl err, n') \<longrightarrow>
      syncToHead C best head s
        = (None, log_line (FailedToReceiveBlocks err)
                   ((log_line (SendingBatchBlockRequest (batchRequest C s) best) s)
                      \<lparr>p2p_net := n'\<rparr>)))
   \<and> (HeadSlot C (chain_db s) < head
        \<and> requestBlocks C (p2p_net s) (batchRequest C s) best = (Inr resp, n')
        \<and> processBatch C ((log_line (SendingBatchBlockRequest (batchRequest C s) best) s)
                            \<lparr>p2p_net := n'\<rparr>) resp = (Some err', s') \<longrightarrow>
      syncToHead C best head s = (None, log_line (FailedToProcessBlock err') s'))
   \<and> (roundRobinSync C init = Some (r, t) \<longrightarrow>
        r = fst (queue_start C (p2p_net init) (highestFinalizedSlot C (p2p_net init))))
   \<and> (queue_start C (p2p_net init) (highestFinalizedSlot C (p2p_net init)) = (None, qn)
        \<and> syncToFinalizedEpoch C
             (init\<lparr>skipSlotCacheEnabled := False, counter := 0,
                 lastProcessedSlot := HeadSlot C (chain_db init), p2p_net := qn\<rparr>) = Some fin
        \<and> bestFinalizedPeers C (stopQueue C (log_line SyncedToFinalizedEpoch fin)) = (pids, sel)
        \<and> waitForSuitablePeer C sel pids = Some (best', rdy) \<longrightarrow>
      (\<exists>t'. roundRobinSync C init = Some (None, t')))"
proof (intro conjI impI)
  show "fst (syncToHead C best head s) = None" by (rule syncToHead_nil)
next
  assume "HeadSlot C (chain_db s) < head
        \<and> requestBlocks C (p2p_net s) (batchRequest C s) best = (Inl err, n')"
  then show "syncToHead C best head s
        = (None, log_line (FailedToReceiveBlocks err)
                   ((log_line (SendingBatchBlockRequest (batchRequest C s) best) s)
                      \<lparr>p2p_net := n'\<rparr>))"
    by (simp add: syncToHead_request_fails)
next
  assume "HeadSlot C (chain_db s) < head
        \<and> requestBlocks C (p2p_net s) (batchRequest C s) best = (Inr resp, n')
        \<and> processBatch C ((log_line (SendingBatchBlockRequest (batchRequest C s) best) s)
                            \<lparr>p2p_net := n'\<rparr>) resp = (Some err', s')"
  then show "syncToHead C best head s = (None, log_line (FailedToProcessBlock err') s')"
    by (simp add: syncToHead_block_fails)
next
  assume "roundRobinSync C init = Some (r, t)"
  then show "r = fst (queue_start C (p2p_net init) (highestFinalizedSlot C (p2p_net init)))"
    by (rule roundRobinSync_result)
next
  assume a: "queue_start C (p2p_net init) (highestFinalizedSlot C (p2p_net init)) = (None, qn)
        \<and> syncToFinalizedEpoch C
             (init\<lparr>skipSlotCacheEnabled := False, counter := 0,
                 lastProcessedSlot := HeadSlot C (chain_db init), p2p_net := qn\<rparr>) = Some fin
        \<and> bestFinalizedPeers C (stopQueue C (log_line SyncedToFinalizedEpoch fin)) = (pids, sel)
        \<and> waitForSuitablePeer C sel pids = Some (best', rdy)"
  obtain x y where sh: "syncToHead C best' (SlotsSince C (p2p_net rdy)) rdy = (x, y)"
    by (cases "syncToHead C best' (SlotsSince C (p2p_net rdy)) rdy")
  with syncToHead_nil[of C best' "SlotsSince C (p2p_net rdy)" rdy] have "x = None" by simp
  with a sh show "\<exists>t'. roundRobinSync C init = Some (None, t')"
    by (simp add: roundRobinSync_def Let_def)
qed

theorem roundRobinSync_return_value_witness:
  "fst (the (roundRobinSync exampleC (run_service good_batches))) = None
   \<and> fst (the (roundRobinSync exampleC (run_service bad_batches))) = None
   \<and> fst (the (roundRobinSync failingC (run_service good_batches))) = None
   \<and> last (logged (snd (the (roundRobinSync exampleC (run_service bad_batches)))))
       = FailedToProcessBlock (NoParentInDb [9])
   \<and> last (logged (snd (the (roundRobinSync failingC (run_service good_batches)))))
       = FailedToReceiveBlocks (Collaborator ''stream reset'')
   \<and> fst (the (roundRobinSync (exampleC\<lparr>queue_start := (\<lambda>n target. (Some (Collaborator ''no peers''), n))\<rparr>)
                  (run_service good_batches))) = Some (Collaborator ''no peers'')"
proof -
  have g: "roundRobinSync exampleC (run_service good_batches)
             = Some (the (roundRobinSync exampleC (run_service good_batches)))"
    by (simp add: run_simps example_simps)
  have b: "roundRobinSync exampleC (run_service bad_batches)
             = Some (the (roundRobinSync exampleC (run_service bad_batches)))"
    by (simp add: run_simps example_simps)
  have f: "roundRobinSync failingC (run_service good_batches)
             = Some (the (roundRobinSync failingC (run_service good_batches)))"
    by (simp add: run_simps example_simps)
  let ?Q = "exampleC\<lparr>queue_start := (\<lambda>n target. (Some (Collaborator ''no peers''), n))\<rparr>"
  have q: "roundRobinSync ?Q (run_service good_batches)
             = Some (the (roundRobinSync ?Q (run_service good_batches)))"
    by (simp add: run_simps example_simps)
  have lb: "last (logged (snd (the (roundRobinSync exampleC (run_service bad_batches)))))
       = FailedToProcessBlock (NoParentInDb [9])"
    by (simp add: run_simps example_simps)
  have lf: "last (logged (snd (the (roundRobinSync failingC (run_service good_batches)))))
       = FailedToReceiveBlocks (Collaborator ''stream reset'')"
    by (simp add: run_simps example_simps)
  note ret = roundRobinSync_return_value[THEN conjunct2, THEN conjunct2, THEN conjunct2,
      THEN conjunct1, rule_format]
  from g have "roundRobinSync exampleC (run_service good_batches)
      = Some (fst (the (roundRobinSync exampleC (run_service good_batches))),
              snd (the (roundRobinSync exampleC (run_service good_batches))))"
    by simp
  from ret[OF this]
  have 1: "fst (the (roundRobinSync exampleC (run_service good_batches))) = None"
    by (simp add: exampleC_def)
  from b have "roundRobinSync exampleC (run_service bad_batches)
      = Some (fst (the (roundRobinSync exampleC (run_service bad_batches))),
              snd (the (roundRobinSync exampleC (run_service bad_batches))))"
    by simp
  from ret[OF this]
  have 2: "fst (the (roundRobinSync exampleC (run_service bad_batches))) = None"
    by (simp add: exampleC_def)
  from f have "roundRobinSync failingC (run_service good_batches)
      = Some (fst (the (roundRobinSync failingC (run_service good_batches))),
              snd (the (roundRobinSync failingC (run_service good_batches))))"
    by simp
  from ret[OF this]
  have 3: "fst (the (roundRobinSync failingC (run_service good_batches))) = None"
    by (simp add: exampleC_def failingC_def)
  from q have "roundRobinSync ?Q (run_service good_batches)
      = Some (fst (the (roundRobinSync ?Q (run_service good_batches))),
              snd (the (roundRobinSync ?Q (run_service good_batches))))"
    by simp
  from ret[OF this]
  have 4: "fst (the (roundRobinSync ?Q (run_service good_batches)))
             = Some (Collaborator ''no peers'')"
    by (simp add: exampleC_def)
  from 1 2 3 4 lb lf show ?thesis by simp
qed

text \<open>
  C3, as stated, fails on the code. In the run below the queue delivers nothing, the clock
  reads slot 10 and the peer's first batch holds the block of slot 1 with the unknown parent
  \<open>[9]\<close>, followed by the block of slot 2 whose parent \<open>[0]\<close> is stored. The gate rejects the
  first block and the run ends there: the second block of the batch is never passed to the
  gate (the rate counter stands at 1 and the watermark at 0), the second batch is still
  with the peer, and the head is below the target.
\<close>

theorem roundRobinSync_block_failure_counterexample:
  "roundRobinSync exampleC (run_service bad_batches)
     = Some (None,
         \<lparr>lastProcessedSlot = 0, counter = 1,
          logged = [SyncedToFinalizedEpoch,
                    SendingBatchBlockRequest \<lparr>StartSlot = 1, Count = 11, Step = 1\<rparr> ''p1'',
                    ProcessingBlock 1 [1],
                    FailedToProcessBlock (NoParentInDb [9])],
          skipSlotCacheEnabled = True,
          chain_db = \<lparr>head_slot = 0, stored = [[0]]\<rparr>,
          p2p_net = \<lparr>now = 10, channel = [], served = [[example_block 3 [0] [3]]],
                     peers = [(''p1'', \<lparr>FinalizedEpoch = 0, HeadSlotOfPeer = 2\<rparr>)]\<rparr>\<rparr>)
   \<and> fst (processBlock exampleC (ReceiveBlockNoPubsub exampleC)
            (snd (the (roundRobinSync exampleC (run_service bad_batches))))
            (example_block 2 [0] [2])) = None"
  by (simp add: run_simps example_simps)

text \<open>
  C3, amended. In step 1 a block that fails in the gate or in the receiver is logged and
  skipped: the loop goes on with the next block of the queue, with the watermark unchanged.
  In step 2 the first block of a batch that fails ends the run, as a failed batch request
  does; the error is logged and the loop returns \<^verbatim>\<open>nil\<close>. Every return of step 2 is
  \<^verbatim>\<open>nil\<close>, and \<open>roundRobinSync\<close> returns \<^verbatim>\<open>nil\<close> or the error of starting the queue.
\<close>

theorem block_failure_handling:
  "(fetchedBlocks C (chain_db s) (p2p_net s) = Some (blk, n')
      \<and> processBlock C (ReceiveBlockInitialSync C) (s\<lparr>p2p_net := n'\<rparr>) blk = (Some err, s') \<longrightarrow>
    syncToFinalizedEpoch C s = syncToFinalizedEpoch C (log_line (BlockIsNotProcessed err) s')
    \<and> lastProcessedSlot (log_line (BlockIsNotProcessed err) s') = lastProcessedSlot s)
   \<and> (HeadSlot C (chain_db s) < head
        \<and> requestBlocks C (p2p_net s) (batchRequest C s) best = (Inr resp, n'')
        \<and> processBatch C ((log_line (SendingBatchBlockRequest (batchRequest C s) best) s)
                            \<lparr>p2p_net := n''\<rparr>) resp = (Some err', s'') \<longrightarrow>
      syncToHead C best head s = (None, log_line (FailedToProcessBlock err') s''))
   \<and> (HeadSlot C (chain_db s) < head
        \<and> requestBlocks C (p2p_net s) (batchRequest C s) best = (Inl err'', n'') \<longrightarrow>
      syncToHead C best head s
        = (None, log_line (FailedToReceiveBlocks err'')
                   ((log_line (SendingBatchBlockRequest (batchRequest C s) best) s)
                      \<lparr>p2p_net := n''\<rparr>)))
   \<and> fst (syncToHead C best head s) = None
   \<and> (roundRobinSync C init = Some (r, t) \<longrightarrow>
        r = fst (queue_start C (p2p_net init) (highestFinalizedSlot C (p2p_net init))))"
proof (intro conjI impI)
  assume a: "fetchedBlocks C (chain_db s) (p2p_net s) = Some (blk, n')
      \<and> processBlock C (ReceiveBlockInitialSync C) (s\<lparr>p2p_net := n'\<rparr>) blk = (Some err, s')"
  then show "syncToFinalizedEpoch C s
      = syncToFinalizedEpoch C (log_line (BlockIsNotProcessed err) s')"
    by (subst syncToFinalizedEpoch.simps) simp
  from a have "lastProcessedSlot s' = lastProcessedSlot (s\<lparr>p2p_net := n'\<rparr>)"
    using processBlock_reject_lps[of C "ReceiveBlockInitialSync C" "s\<lparr>p2p_net := n'\<rparr>" blk err s']
    by simp
  then show "lastProcessedSlot (log_line (BlockIsNotProcessed err) s') = lastProcessedSlot s"
    by (simp add: log_line_def)
next
  assume "HeadSlot C (chain_db s) < head
        \<and> requestBlocks C (p2p_net s) (batchRequest C s) best = (Inr resp, n'')
        \<and> processBatch C ((log_line (SendingBatchBlockRequest (batchRequest C s) best) s)
                            \<lparr>p2p_net := n''\<rparr>) resp = (Some err', s'')"
  then show "syncToHead C best head s = (None, log_line (FailedToProcessBlock err') s'')"
    by (simp add: syncToHead_block_fails)
next
  assume "HeadSlot C (chain_db s) < head
        \<and> requestBlocks C (p2p_net s) (batchRequest C s) best = (Inl err'', n'')"
  then show "syncToHead C best head s
        = (None, log_line (FailedToReceiveBlocks err'')
                   ((log_line (SendingBatchBlockRequest (batchRequest C s) best) s)
                      \<lparr>p2p_net := n''\<rparr>))"
    by (simp add: syncToHead_request_fails)
next
  show "fst (syncToHead C best head s) = None" by (rule syncToHead_nil)
next
  assume "roundRobinSync C init = Some (r, t)"
  then show "r = fst (queue_start C (p2p_net init) (highestFinalizedSlot C (p2p_net init)))"
    by (rule roundRobinSync_result)
qed

theorem block_failure_handling_witness:
  "syncToFinalizedEpoch exampleC phase1_service
     = Some \<lparr>lastProcessedSlot = 2, counter = 2,
             logged = [ProcessingBlock 1 [1], BlockIsNotProcessed (NoParentInDb [9]),
                       ProcessingBlock 2 [2]],
             skipSlotCacheEnabled = True,
             chain_db = \<lparr>head_slot = 2, stored = [[2], [0]]\<rparr>,
             p2p_net = \<lparr>now = 2, channel = [], served = [],
                        peers = [(''p1'', \<lparr>FinalizedEpoch = 0, HeadSlotOfPeer = 2\<rparr>)]\<rparr>\<rparr>
   \<and> syncToHead exampleC ''p1'' 10 (run_service bad_batches)
       = (None,
          \<lparr>lastProcessedSlot = 0, counter = 1,
           logged = [SendingBatchBlockRequest \<lparr>StartSlot = 1, Count = 11, Step = 1\<rparr> ''p1'',
                     ProcessingBlock 1 [1],
                     FailedToProcessBlock (NoParentInDb [9])],
           skipSlotCacheEnabled = True,
           chain_db = \<lparr>head_slot = 0, stored = [[0]]\<rparr>,
           p2p_net = \<lparr>now = 10, channel = [], served = [[example_block 3 [0] [3]]],
                      peers = [(''p1'', \<lparr>FinalizedEpoch = 0, HeadSlotOfPeer = 2\<rparr>)]\<rparr>\<rparr>)"
proof -
  let ?n = "(p2p_net phase1_service)\<lparr>channel := [example_block 2 [0] [2]]\<rparr>"
  let ?s = "(logSyncStatus (phase1_service\<lparr>p2p_net := ?n\<rparr>) (example_block 1 [9] [1]) [1])"
  have "fetchedBlocks exampleC (chain_db phase1_service) (p2p_net phase1_service)
          = Some (example_block 1 [9] [1], ?n)
      \<and> processBlock exampleC (ReceiveBlockInitialSync exampleC)
           (phase1_service\<lparr>p2p_net := ?n\<rparr>) (example_block 1 [9] [1])
          = (Some (NoParentInDb [9]), ?s)"
    by (simp add: phase1_service_def example_simps word_le_nat_alt)
  from block_failure_handling[THEN conjunct1, rule_format, OF this]
  have "syncToFinalizedEpoch exampleC phase1_service
      = syncToFinalizedEpoch exampleC (log_line (BlockIsNotProcessed (NoParentInDb [9])) ?s)"
    by simp
  also have "\<dots> = Some \<lparr>lastProcessedSlot = 2, counter = 2,
             logged = [ProcessingBlock 1 [1], BlockIsNotProcessed (NoParentInDb [9]),
                       ProcessingBlock 2 [2]],
             skipSlotCacheEnabled = True,
             chain_db = \<lparr>head_slot = 2, stored = [[2], [0]]\<rparr>,
             p2p_net = \<lparr>now = 2, channel = [], served = [],
                        peers = [(''p1'', \<lparr>FinalizedEpoch = 0, HeadSlotOfPeer = 2\<rparr>)]\<rparr>\<rparr>"
    by (simp add: phase1_service_def run_simps example_simps)
  finally have one: "syncToFinalizedEpoch exampleC phase1_service
     = Some \<lparr>lastProcessedSlot = 2, counter = 2,
             logged = [ProcessingBlock 1 [1], BlockIsNotProcessed (NoParentInDb [9]),
                       ProcessingBlock 2 [2]],
             skipSlotCacheEnabled = True,
             chain_db = \<lparr>head_slot = 2, stored = [[2], [0]]\<rparr>,
             p2p_net = \<lparr>now = 2, channel = [], served = [],
                        peers = [(''p1'', \<lparr>FinalizedEpoch = 0, HeadSlotOfPeer = 2\<rparr>)]\<rparr>\<rparr>" .
  let ?r = "run_service bad_batches"
  let ?m = "(p2p_net ?r)\<lparr>served := [[example_block 3 [0] [3]]]\<rparr>"
  let ?q = "SendingBatchBlockRequest (batchRequest exampleC ?r) ''p1''"
  have "HeadSlot exampleC (chain_db ?r) < 10
        \<and> requestBlocks exampleC (p2p_net ?r) (batchRequest exampleC ?r) ''p1''
            = (Inr [example_block 1 [9] [1], example_block 2 [0] [2]], ?m)
        \<and> processBatch exampleC ((log_line ?q ?r)\<lparr>p2p_net := ?m\<rparr>)
              [example_block 1 [9] [1], example_block 2 [0] [2]]
            = (Some (NoParentInDb [9]),
               logSyncStatus ((log_line ?q ?r)\<lparr>p2p_net := ?m\<rparr>) (example_block 1 [9] [1]) [1])"
    by (simp add: run_simps example_simps)
  from block_failure_handling[THEN conjunct2, THEN conjunct1, rule_format, OF this]
  have two: "syncToHead exampleC ''p1'' 10 ?r
      = (None, log_line (FailedToProcessBlock (NoParentInDb [9]))
                 (logSyncStatus ((log_line ?q ?r)\<lparr>p2p_net := ?m\<rparr>)
                    (example_block 1 [9] [1]) [1]))" .
  from one two show ?thesis
    by (simp add: run_simps example_simps)
qed

section \<open>Properties of the chunk codec\<close>

declare putUvarint.simps [simp del]

lemma unat_byte_of_nat: "n < 256 \<Longrightarrow> unat (of_nat n :: byte) = n"
  by (simp add: unat_of_nat)

lemma getUvarint_putUvarint: "getUvarint (putUvarint n @ rest) = Some (n, rest)"
proof (induction n rule: putUvarint.induct)
  case (1 n)
  show ?case
  proof (cases "n < 128")
    case True
    then have "unat (of_nat n :: byte) = n" by (simp add: unat_byte_of_nat)
    with True have "(of_nat n :: byte) < 128" by (simp add: word_less_nat_alt)
    with True \<open>unat (of_nat n :: byte) = n\<close> show ?thesis
      by (subst putUvarint.simps) simp
  next
    case False
    have u: "unat (of_nat (128 + n mod 128) :: byte) = 128 + n mod 128"
      by (rule unat_byte_of_nat) simp
    then have hi: "\<not> (of_nat (128 + n mod 128) :: byte) < 128"
      by (simp add: word_less_nat_alt)
    from False "1.IH" have "getUvarint (putUvarint (n div 128) @ rest) = Some (n div 128, rest)"
      by simp
    with False u hi show ?thesis
      by (subst putUvarint.simps) simp
  qed
qed

lemma string_of_bytes_of_string: "string_of_bytes (bytes_of_string s) = s"
proof -
  have "char_of (unat (of_nat (of_char c) :: byte)) = c" for c :: char
  proof -
    have "(of_char c :: nat) < 256" by simp
    then have "unat (of_nat (of_char c) :: byte) = of_char c" by (rule unat_byte_of_nat)
    then show ?thesis by simp
  qed
  then show ?thesis
    by (simp add: string_of_bytes_def bytes_of_string_def comp_def)
qed

lemma readPrefixed_frame:
  assumes "unmarshal b = Some v"
    and "case maxSize of None \<Rightarrow> True | Some m \<Rightarrow> length b \<le> m"
  shows "readPrefixed unmarshal (stream\<lparr>unread := putUvarint (length b) @ b @ tail\<rparr>) maxSize
           = (Inr v, stream\<lparr>unread := tail\<rparr>)"
  using assms
  by (cases maxSize) (simp_all add: readPrefixed_def getUvarint_putUvarint)

lemma readPrefixed_too_large:
  assumes "m < n"
  shows "readPrefixed unmarshal (stream\<lparr>unread := putUvarint n @ tail\<rparr>) (Some m)
           = (Inl EncodingTooLarge, stream\<lparr>unread := tail\<rparr>)"
  using assms by (simp add: readPrefixed_def getUvarint_putUvarint)

lemma readResponseChunk_success:
  "readResponseChunk maxChunkSize (stream\<lparr>unread := responseCodeSuccess # rest\<rparr>) encoding
     = DecodeWithMaxLength encoding (stream\<lparr>readDeadline := Some 10, unread := rest\<rparr>)
         maxChunkSize"
  by (simp add: readResponseChunk_def ReadStatusCode_def SetStreamReadDeadline_def
        responseCodeSuccess_def)

text \<open>
  C4. With the length-prefixing encoder, for a message that its serialisation round-trips:
  when the serialised payload is at most \<open>maxChunkSize\<close> long, \<open>WriteChunk\<close> on a working
  transport appends exactly the message's frame to the stream, and \<open>readResponseChunk\<close> on
  a stream that holds this frame (followed by anything) returns the message and leaves
  what follows the frame unread; in particular, reading what \<open>WriteChunk\<close> wrote to an
  empty stream returns the message. When the payload is longer than \<open>maxChunkSize\<close>, reading
  its frame fails with \<open>EncodingTooLarge\<close>, and \<open>WriteChunk\<close> itself fails with
  \<open>EncodingTooLarge\<close> after the status byte has gone out.
\<close>

theorem chunk_roundtrip:
  assumes "unmarshal (marshal msg) = Some msg"
  shows "(length (marshal msg) \<le> maxChunkSize \<and> faultAfter w = None \<longrightarrow>
            WriteChunk maxChunkSize w (lengthPrefixed marshal unmarshal) msg
              = (None, w\<lparr>written := written w @ chunk_frame marshal msg\<rparr>)
            \<and> readResponseChunk maxChunkSize (r\<lparr>unread := chunk_frame marshal msg @ tail\<rparr>)
                  (lengthPrefixed marshal unmarshal)
                = (Inr msg, r\<lparr>readDeadline := Some 10, unread := tail\<rparr>)
            \<and> (written w = [] \<longrightarrow>
                 readResponseChunk maxChunkSize
                    (r\<lparr>unread := written (snd (WriteChunk maxChunkSize w
                                      (lengthPrefixed marshal unmarshal) msg))\<rparr>)
                    (lengthPrefixed marshal unmarshal)
                   = (Inr msg, r\<lparr>readDeadline := Some 10, unread := []\<rparr>)))
     \<and> (maxChunkSize < length (marshal msg) \<longrightarrow>
            readResponseChunk maxChunkSize (r\<lparr>unread := chunk_frame marshal msg @ tail\<rparr>)
                  (lengthPrefixed marshal unmarshal)
              = (Inl EncodingTooLarge, r\<lparr>readDeadline := Some 10, unread := marshal msg @ tail\<rparr>)
            \<and> (faultAfter w = None \<longrightarrow>
                  WriteChunk maxChunkSize w (lengthPrefixed marshal unmarshal) msg
                    = (Some EncodingTooLarge, w\<lparr>written := written w @ [responseCodeSuccess]\<rparr>)))"
proof (intro conjI impI)
  assume a: "length (marshal msg) \<le> maxChunkSize \<and> faultAfter w = None"
  then show wr: "WriteChunk maxChunkSize w (lengthPrefixed marshal unmarshal) msg
              = (None, w\<lparr>written := written w @ chunk_frame marshal msg\<rparr>)"
    by (simp add: WriteChunk_def lengthPrefixed_def stream_Write_def chunk_frame_def)
  have rd: "readResponseChunk maxChunkSize (r\<lparr>unread := chunk_frame marshal msg @ tl\<rparr>)
                  (lengthPrefixed marshal unmarshal)
                = (Inr msg, r\<lparr>readDeadline := Some 10, unread := tl\<rparr>)" for tl
  proof -
    have "readResponseChunk maxChunkSize (r\<lparr>unread := chunk_frame marshal msg @ tl\<rparr>)
                  (lengthPrefixed marshal unmarshal)
      = readPrefixed unmarshal
          ((r\<lparr>readDeadline := Some 10\<rparr>)
             \<lparr>unread := putUvarint (length (marshal msg)) @ marshal msg @ tl\<rparr>)
          (Some maxChunkSize)"
      by (simp add: chunk_frame_def readResponseChunk_success lengthPrefixed_def)
    also have "\<dots> = (Inr msg, (r\<lparr>readDeadline := Some 10\<rparr>)\<lparr>unread := tl\<rparr>)"
      using assms a by (intro readPrefixed_frame) simp_all
    finally show ?thesis .
  qed
  show "readResponseChunk maxChunkSize (r\<lparr>unread := chunk_frame marshal msg @ tail\<rparr>)
                  (lengthPrefixed marshal unmarshal)
                = (Inr msg, r\<lparr>readDeadline := Some 10, unread := tail\<rparr>)"
    by (rule rd)
  assume "written w = []"
  with wr rd[of "[]"]
  show "readResponseChunk maxChunkSize
          (r\<lparr>unread := written (snd (WriteChunk maxChunkSize w
                            (lengthPrefixed marshal unmarshal) msg))\<rparr>)
          (lengthPrefixed marshal unmarshal)
         = (Inr msg, r\<lparr>readDeadline := Some 10, unread := []\<rparr>)"
    by simp
next
  assume big: "maxChunkSize < length (marshal msg)"
  have "readResponseChunk maxChunkSize (r\<lparr>unread := chunk_frame marshal msg @ tail\<rparr>)
                  (lengthPrefixed marshal unmarshal)
      = readPrefixed unmarshal
          ((r\<lparr>readDeadline := Some 10\<rparr>)
             \<lparr>unread := putUvarint (length (marshal msg)) @ marshal msg @ tail\<rparr>)
          (Some maxChunkSize)"
    by (simp add: chunk_frame_def readResponseChunk_success lengthPrefixed_def)
  also have "\<dots> = (Inl EncodingTooLarge,
                    (r\<lparr>readDeadline := Some 10\<rparr>)\<lparr>unread := marshal msg @ tail\<rparr>)"
    using big by (rule readPrefixed_too_large)
  finally show "readResponseChunk maxChunkSize (r\<lparr>unread := chunk_frame marshal msg @ tail\<rparr>)
                  (lengthPrefixed marshal unmarshal)
              = (Inl EncodingTooLarge, r\<lparr>readDeadline := Some 10, unread := marshal msg @ tail\<rparr>)" .
  assume "faultAfter w = None"
  with big show "WriteChunk maxChunkSize w (lengthPrefixed marshal unmarshal) msg
                    = (Some EncodingTooLarge, w\<lparr>written := written w @ [responseCodeSuccess]\<rparr>)"
    by (simp add: WriteChunk_def lengthPrefixed_def stream_Write_def)
qed

theorem chunk_roundtrip_witness:
  "WriteChunk 4 fresh_stream rawEncoding [1, 2, 3] = (None, fresh_stream\<lparr>written := [0, 3, 1, 2, 3]\<rparr>)
   \<and> readResponseChunk 4 (fresh_stream\<lparr>unread := [0, 3, 1, 2, 3]\<rparr>) rawEncoding
       = (Inr [1, 2, 3], fresh_stream\<lparr>readDeadline := Some 10, unread := []\<rparr>)
   \<and> readResponseChunk 4 (fresh_stream\<lparr>unread := [0, 5, 1, 2, 3, 4, 5]\<rparr>) rawEncoding
       = (Inl EncodingTooLarge, fresh_stream\<lparr>readDeadline := Some 10, unread := [1, 2, 3, 4, 5]\<rparr>)
   \<and> WriteChunk 4 fresh_stream rawEncoding [1, 2, 3, 4, 5]
       = (Some EncodingTooLarge, fresh_stream\<lparr>written := [0]\<rparr>)"
proof -
  have rt: "Some ((\<lambda>bs::byte list. bs) m) = Some m" for m by simp
  have small: "length ((\<lambda>bs::byte list. bs) [1, 2, 3]) \<le> 4 \<and> faultAfter fresh_stream = None"
    by (simp add: fresh_stream_def)
  have big: "4 < length ((\<lambda>bs::byte list. bs) [1, 2, 3, 4, 5])" by simp
  have ok: "faultAfter fresh_stream = None" by (simp add: fresh_stream_def)
  have f3: "chunk_frame (\<lambda>bs::byte list. bs) [1, 2, 3] = [0, 3, 1, 2, 3]"
    by (simp add: chunk_frame_def responseCodeSuccess_def putUvarint.simps)
  have f5: "chunk_frame (\<lambda>bs::byte list. bs) [1, 2, 3, 4, 5] = [0, 5, 1, 2, 3, 4, 5]"
    by (simp add: chunk_frame_def responseCodeSuccess_def putUvarint.simps)
  from chunk_roundtrip[where unmarshal = Some and marshal = "\<lambda>bs. bs" and msg = "[1, 2, 3]"
      and maxChunkSize = 4 and w = fresh_stream and r = fresh_stream and tail = "[]",
      OF rt, THEN conjunct1, rule_format, OF small]
  have a: "WriteChunk 4 fresh_stream rawEncoding [1, 2, 3]
             = (None, fresh_stream\<lparr>written := [0, 3, 1, 2, 3]\<rparr>)
     \<and> readResponseChunk 4 (fresh_stream\<lparr>unread := [0, 3, 1, 2, 3]\<rparr>) rawEncoding
         = (Inr [1, 2, 3], fresh_stream\<lparr>readDeadline := Some 10, unread := []\<rparr>)"
    by (simp add: f3 rawEncoding_def fresh_stream_def)
  from chunk_roundtrip[where unmarshal = Some and marshal = "\<lambda>bs. bs" and msg = "[1, 2, 3, 4, 5]"
      and maxChunkSize = 4 and w = fresh_stream and r = fresh_stream and tail = "[]",
      OF rt, THEN conjunct2, rule_format, OF big]
  have b: "readResponseChunk 4 (fresh_stream\<lparr>unread := [0, 5, 1, 2, 3, 4, 5]\<rparr>) rawEncoding
       = (Inl EncodingTooLarge, fresh_stream\<lparr>readDeadline := Some 10, unread := [1, 2, 3, 4, 5]\<rparr>)
     \<and> WriteChunk 4 fresh_stream rawEncoding [1, 2, 3, 4, 5]
       = (Some EncodingTooLarge, fresh_stream\<lparr>written := [0]\<rparr>)"
    using ok by (simp add: f5 rawEncoding_def fresh_stream_def responseCodeSuccess_def)
  from a b show ?thesis by simp
qed

text \<open>
  C5. A chunk whose status byte is nonzero and whose error string the encoding decodes makes
  \<open>readResponseChunk\<close> fail with \<^verbatim>\<open>errors.New\<close> of that string, leaving the stream just
  after the string; the decoder of the payload plays no part in the result, whatever it
  is. A chunk whose status byte is zero is handed to \<open>DecodeWithMaxLength\<close> with the bound
  \<open>maxChunkSize\<close>. With the length-prefixing encoder: the frame of a failure with error
  string \<open>errMsg\<close> is read as the error with message \<open>errMsg\<close>, and a success frame
  announcing more than \<open>maxChunkSize\<close> bytes is refused with \<open>EncodingTooLarge\<close>
  before any payload is read.
\<close>

theorem readResponseChunk_status:
  "(unread stream = code # rest \<and> code \<noteq> 0
      \<and> DecodeErrorString encoding (stream\<lparr>readDeadline := Some 10, unread := rest\<rparr>)
            = (Inr errMsg, stream') \<longrightarrow>
    (\<forall>decode. readResponseChunk maxChunkSize stream
                 (encoding\<lparr>DecodeWithMaxLength := decode\<rparr>)
               = (Inl (ErrorsNew errMsg), stream')))
   \<and> (unread stream = 0 # rest \<longrightarrow>
        readResponseChunk maxChunkSize stream encoding
          = DecodeWithMaxLength encoding (stream\<lparr>readDeadline := Some 10, unread := rest\<rparr>)
              maxChunkSize)
   \<and> (code \<noteq> 0 \<longrightarrow>
        readResponseChunk maxChunkSize (stream\<lparr>unread := error_frame code errMsg @ tail\<rparr>)
            (lengthPrefixed marshal unmarshal)
          = (Inl (ErrorsNew errMsg), stream\<lparr>readDeadline := Some 10, unread := tail\<rparr>))
   \<and> (maxChunkSize < n \<longrightarrow>
        readResponseChunk maxChunkSize (stream\<lparr>unread := 0 # putUvarint n @ tail\<rparr>)
            (lengthPrefixed marshal unmarshal)
          = (Inl EncodingTooLarge, stream\<lparr>readDeadline := Some 10, unread := tail\<rparr>))"
proof (intro conjI impI allI)
  fix decode
  assume "unread stream = code # rest \<and> code \<noteq> 0
      \<and> DecodeErrorString encoding (stream\<lparr>readDeadline := Some 10, unread := rest\<rparr>)
            = (Inr errMsg, stream')"
  then show "readResponseChunk maxChunkSize stream (encoding\<lparr>DecodeWithMaxLength := decode\<rparr>)
               = (Inl (ErrorsNew errMsg), stream')"
    by (simp add: readResponseChunk_def ReadStatusCode_def SetStreamReadDeadline_def
          responseCodeSuccess_def)
next
  assume "unread stream = 0 # rest"
  then show "readResponseChunk maxChunkSize stream encoding
          = DecodeWithMaxLength encoding (stream\<lparr>readDeadline := Some 10, unread := rest\<rparr>)
              maxChunkSize"
    by (simp add: readResponseChunk_def ReadStatusCode_def SetStreamReadDeadline_def
          responseCodeSuccess_def)
next
  assume nz: "code \<noteq> 0"
  have "readPrefixed (\<lambda>bs. Some (string_of_bytes bs))
          ((stream\<lparr>readDeadline := Some 10\<rparr>)
             \<lparr>unread := putUvarint (length (bytes_of_string errMsg))
                          @ bytes_of_string errMsg @ tail\<rparr>) None
        = (Inr (string_of_bytes (bytes_of_string errMsg)),
           (stream\<lparr>readDeadline := Some 10\<rparr>)\<lparr>unread := tail\<rparr>)"
    by (rule readPrefixed_frame) simp_all
  with nz show "readResponseChunk maxChunkSize
            (stream\<lparr>unread := error_frame code errMsg @ tail\<rparr>)
            (lengthPrefixed marshal unmarshal)
          = (Inl (ErrorsNew errMsg), stream\<lparr>readDeadline := Some 10, unread := tail\<rparr>)"
    by (simp add: readResponseChunk_def ReadStatusCode_def SetStreamReadDeadline_def
          responseCodeSuccess_def error_frame_def lengthPrefixed_def string_of_bytes_of_string)
next
  assume big: "maxChunkSize < n"
  have "readResponseChunk maxChunkSize (stream\<lparr>unread := 0 # putUvarint n @ tail\<rparr>)
            (lengthPrefixed marshal unmarshal)
      = readPrefixed unmarshal
          ((stream\<lparr>readDeadline := Some 10\<rparr>)\<lparr>unread := putUvarint n @ tail\<rparr>)
          (Some maxChunkSize)"
    using readResponseChunk_success[where maxChunkSize = maxChunkSize and stream = stream
        and rest = "putUvarint n @ tail" and encoding = "lengthPrefixed marshal unmarshal"]
    by (simp add: responseCodeSuccess_def lengthPrefixed_def)
  also have "\<dots> = (Inl EncodingTooLarge, (stream\<lparr>readDeadline := Some 10\<rparr>)\<lparr>unread := tail\<rparr>)"
    using big by (rule readPrefixed_too_large)
  finally show "readResponseChunk maxChunkSize (stream\<lparr>unread := 0 # putUvarint n @ tail\<rparr>)
            (lengthPrefixed marshal unmarshal)
          = (Inl EncodingTooLarge, stream\<lparr>readDeadline := Some 10, unread := tail\<rparr>)" .
qed

theorem readResponseChunk_status_witness:
  "readResponseChunk 4 (fresh_stream\<lparr>unread := [1, 4, 98, 111, 111, 109, 7]\<rparr>) rawEncoding
     = (Inl (ErrorsNew ''boom''), fresh_stream\<lparr>readDeadline := Some 10, unread := [7]\<rparr>)
   \<and> readResponseChunk 4 (fresh_stream\<lparr>unread := [0, 9, 7]\<rparr>) rawEncoding
     = (Inl EncodingTooLarge, fresh_stream\<lparr>readDeadline := Some 10, unread := [7]\<rparr>)"
proof -
  have boom: "error_frame 1 ''boom'' = [1, 4, 98, 111, 111, 109]"
    by (simp add: error_frame_def bytes_of_string_def putUvarint.simps)
  have nine: "putUvarint 9 = [9]" by (simp add: putUvarint.simps)
  have "(1::byte) \<noteq> 0" by simp
  from readResponseChunk_status[THEN conjunct2, THEN conjunct2, THEN conjunct1, rule_format,
      OF this, where maxChunkSize = 4 and stream = fresh_stream and errMsg = "''boom''"
      and tail = "[7]" and marshal = "\<lambda>bs. bs" and unmarshal = Some]
  have a: "readResponseChunk 4 (fresh_stream\<lparr>unread := [1, 4, 98, 111, 111, 109, 7]\<rparr>) rawEncoding
     = (Inl (ErrorsNew ''boom''), fresh_stream\<lparr>readDeadline := Some 10, unread := [7]\<rparr>)"
    by (simp add: boom rawEncoding_def)
  have "(4::nat) < 9" by simp
  from readResponseChunk_status[THEN conjunct2, THEN conjunct2, THEN conjunct2, rule_format,
      OF this, where stream = fresh_stream and tail = "[7]" and marshal = "\<lambda>bs. bs"
      and unmarshal = Some]
  have b: "readResponseChunk 4 (fresh_stream\<lparr>unread := [0, 9, 7]\<rparr>) rawEncoding
     = (Inl EncodingTooLarge, fresh_stream\<lparr>readDeadline := Some 10, unread := [7]\<rparr>)"
    by (simp add: nine rawEncoding_def)
  from a b show ?thesis by simp
qed

text \<open>
  C7. \<open>chunkWriter\<close> sets the write deadline to \<open>defaultWriteDuration\<close> and then writes
  the chunk. When the transport refuses the status byte, the result is the transport's
  error and nothing is written. Otherwise exactly the one byte \<^verbatim>\<open>0x00\<close> is appended to the
  stream, and the result is that of the encoder's \<open>EncodeWithMaxLength\<close>, called on that
  stream with the message and the bound \<open>maxChunkSize\<close>: the write fails exactly when
  the encoder does.
\<close>

theorem chunkWriter_frame:
  "chunkWriter defaultWriteDuration maxChunkSize encoding stream msg
     = WriteChunk maxChunkSize (stream\<lparr>writeDeadline := Some defaultWriteDuration\<rparr>) encoding msg
   \<and> (faultAfter stream = Some 0 \<longrightarrow>
        chunkWriter defaultWriteDuration maxChunkSize encoding stream msg
          = (Some IOError, stream\<lparr>writeDeadline := Some defaultWriteDuration\<rparr>))
   \<and> (faultAfter stream = None \<longrightarrow>
        chunkWriter defaultWriteDuration maxChunkSize encoding stream msg
          = EncodeWithMaxLength encoding
              (stream\<lparr>writeDeadline := Some defaultWriteDuration,
                      written := written stream @ [0]\<rparr>)
              msg maxChunkSize)
   \<and> (faultAfter stream = Some (Suc k) \<longrightarrow>
        chunkWriter defaultWriteDuration maxChunkSize encoding stream msg
          = EncodeWithMaxLength encoding
              (stream\<lparr>writeDeadline := Some defaultWriteDuration,
                      written := written stream @ [0], faultAfter := Some k\<rparr>)
              msg maxChunkSize)"
proof (intro conjI impI)
  show "chunkWriter defaultWriteDuration maxChunkSize encoding stream msg
     = WriteChunk maxChunkSize (stream\<lparr>writeDeadline := Some defaultWriteDuration\<rparr>) encoding msg"
    by (simp add: chunkWriter_def SetStreamWriteDeadline_def)
next
  assume "faultAfter stream = Some 0"
  then show "chunkWriter defaultWriteDuration maxChunkSize encoding stream msg
          = (Some IOError, stream\<lparr>writeDeadline := Some defaultWriteDuration\<rparr>)"
    by (simp add: chunkWriter_def SetStreamWriteDeadline_def WriteChunk_def stream_Write_def)
next
  assume "faultAfter stream = None"
  then show "chunkWriter defaultWriteDuration maxChunkSize encoding stream msg
          = EncodeWithMaxLength encoding
              (stream\<lparr>writeDeadline := Some defaultWriteDuration,
                      written := written stream @ [0]\<rparr>)
              msg maxChunkSize"
    by (simp add: chunkWriter_def SetStreamWriteDeadline_def WriteChunk_def stream_Write_def
          responseCodeSuccess_def)
next
  assume "faultAfter stream = Some (Suc k)"
  then show "chunkWriter defaultWriteDuration maxChunkSize encoding stream msg
          = EncodeWithMaxLength encoding
              (stream\<lparr>writeDeadline := Some defaultWriteDuration,
                      written := written stream @ [0], faultAfter := Some k\<rparr>)
              msg maxChunkSize"
    by (simp add: chunkWriter_def SetStreamWriteDeadline_def WriteChunk_def stream_Write_def
          responseCodeSuccess_def)
qed

theorem chunkWriter_frame_witness:
  "chunkWriter 5 4 rawEncoding fresh_stream [1, 2, 3]
     = (None, fresh_stream\<lparr>writeDeadline := Some 5, written := [0, 3, 1, 2, 3]\<rparr>)
   \<and> chunkWriter 5 4 rawEncoding fresh_stream [1, 2, 3, 4, 5]
     = (Some EncodingTooLarge, fresh_stream\<lparr>writeDeadline := Some 5, written := [0]\<rparr>)
   \<and> chunkWriter 5 4 rawEncoding (fresh_stream\<lparr>faultAfter := Some 0\<rparr>) [1, 2, 3]
     = (Some IOError, fresh_stream\<lparr>faultAfter := Some 0, writeDeadline := Some 5\<rparr>)
   \<and> chunkWriter 5 4 rawEncoding (fresh_stream\<lparr>faultAfter := Some 2\<rparr>) [1, 2, 3]
     = (Some IOError, fresh_stream\<lparr>writeDeadline := Some 5, written := [0, 3],
                                   faultAfter := Some 0\<rparr>)"
proof -
  have ok: "faultAfter fresh_stream = None" by (simp add: fresh_stream_def)
  have bad: "faultAfter (fresh_stream\<lparr>faultAfter := Some 0\<rparr>) = Some 0" by simp
  have two: "faultAfter (fresh_stream\<lparr>faultAfter := Some 2\<rparr>) = Some (Suc 1)" by simp
  note enc = chunkWriter_frame[THEN conjunct2, THEN conjunct2, THEN conjunct1, rule_format]
  from enc[OF ok, where defaultWriteDuration = 5 and maxChunkSize = 4
      and encoding = rawEncoding and msg = "[1, 2, 3]"]
  have a: "chunkWriter 5 4 rawEncoding fresh_stream [1, 2, 3]
     = (None, fresh_stream\<lparr>writeDeadline := Some 5, written := [0, 3, 1, 2, 3]\<rparr>)"
    by (simp add: rawEncoding_def lengthPrefixed_def stream_Write_def fresh_stream_def
          putUvarint.simps)
  from enc[OF ok, where defaultWriteDuration = 5 and maxChunkSize = 4
      and encoding = rawEncoding and msg = "[1, 2, 3, 4, 5]"]
  have b: "chunkWriter 5 4 rawEncoding fresh_stream [1, 2, 3, 4, 5]
     = (Some EncodingTooLarge, fresh_stream\<lparr>writeDeadline := Some 5, written := [0]\<rparr>)"
    by (simp add: rawEncoding_def lengthPrefixed_def stream_Write_def fresh_stream_def)
  from chunkWriter_frame[THEN conjunct2, THEN conjunct1, rule_format, OF bad,
      where defaultWriteDuration = 5 and maxChunkSize = 4
      and encoding = rawEncoding and msg = "[1, 2, 3]"]
  have c: "chunkWriter 5 4 rawEncoding (fresh_stream\<lparr>faultAfter := Some 0\<rparr>) [1, 2, 3]
     = (Some IOError, fresh_stream\<lparr>faultAfter := Some 0, writeDeadline := Some 5\<rparr>)"
    by simp
  from chunkWriter_frame[THEN conjunct2, THEN conjunct2, THEN conjunct2, rule_format, OF two,
      where defaultWriteDuration = 5 and maxChunkSize = 4
      and encoding = rawEncoding and msg = "[1, 2, 3]"]
  have d: "chunkWriter 5 4 rawEncoding (fresh_stream\<lparr>faultAfter := Some 2\<rparr>) [1, 2, 3]
     = (Some IOError, fresh_stream\<lparr>writeDeadline := Some 5, written := [0, 3],
                                   faultAfter := Some 0\<rparr>)"
    by (simp add: rawEncoding_def lengthPrefixed_def stream_Write_def fresh_stream_def
          putUvarint.simps)
  from a b c d show ?thesis by simp
qed

end
